theory Spec2Isabelle
  imports Main
begin

section \<open>Strings and keys\<close>

text \<open>
  JavaScript strings are modelled as HOL strings; one \<^typ>\<open>char\<close> stands for one code unit.
  \<open>split_on c s\<close> is \<^verbatim>\<open>s.split(c)\<close> for a one-character separator: it always returns
  at least one segment, and an empty segment for every leading, trailing or doubled
  separator (\<^verbatim>\<open>"a..b".split('.')\<close> is \<^verbatim>\<open>["a", "", "b"]\<close>).
\<close>

fun split_on :: "char \<Rightarrow> string \<Rightarrow> string list" where
  "split_on c [] = [[]]"
| "split_on c (x # xs) =
     (if x = c then [] # split_on c xs
      else (case split_on c xs of
              [] \<Rightarrow> [[x]]
            | seg # segs \<Rightarrow> (x # seg) # segs))"

definition is_digit :: "char \<Rightarrow> bool" where
  "is_digit ch = (48 \<le> (of_char ch :: nat) \<and> (of_char ch :: nat) \<le> 57)"

fun digits_value :: "nat \<Rightarrow> string \<Rightarrow> nat" where
  "digits_value acc [] = acc"
| "digits_value acc (d # ds) = digits_value (10 * acc + ((of_char d :: nat) - 48)) ds"

text \<open>
  A property key names a character of a string when it is the canonical decimal spelling
  of an index: digits only, no leading zero except for \<^verbatim>\<open>"0"\<close> itself.
\<close>

definition canonical_index :: "string \<Rightarrow> nat option" where
  "canonical_index k =
     (case k of
        [] \<Rightarrow> None
      | d # ds \<Rightarrow>
          if \<not> list_all is_digit k then None
          else if d = CHR ''0'' \<and> ds \<noteq> [] then None
          else Some (digits_value 0 k))"

section \<open>Translation trees and JavaScript values\<close>

text \<open>
  A translation tree is what \<^verbatim>\<open>response.json()\<close> yields for a language file: a nested
  object of string leaves. An object is the association list of its own properties, in
  which the first entry for a key is the one read.
\<close>

datatype tree = Leaf string | Node "(string \<times> tree) list"

type_synonym tobject = "(string \<times> tree) list"

text \<open>
  The values a resolver can hold while it walks a key. Besides the tree's own strings and
  objects these are the number read from a string's \<^verbatim>\<open>length\<close>, and the built-in values
  of the runtime that every plain object inherits from \<^verbatim>\<open>Object.prototype\<close>:
  its methods and, under the key \<^verbatim>\<open>__proto__\<close>, the prototype object itself.
\<close>

datatype builtin = ObjectPrototype | Method string

datatype jsval =
    JUndefined
  | JNull
  | JStr string
  | JNum nat
  | JObj tobject
  | JBuiltin builtin

fun of_tree :: "tree \<Rightarrow> jsval" where
  "of_tree (Leaf s) = JStr s"
| "of_tree (Node ps) = JObj ps"

fun truthy :: "jsval \<Rightarrow> bool" where
  "truthy JUndefined = False"
| "truthy JNull = False"
| "truthy (JStr s) = (s \<noteq> [])"
| "truthy (JNum n) = (n \<noteq> 0)"
| "truthy (JObj ps) = True"
| "truthy (JBuiltin b) = True"

text \<open>The function-valued properties of \<^verbatim>\<open>Object.prototype\<close> (ECMA-262, with Annex B).\<close>

definition object_prototype_methods :: "string list" where
  "object_prototype_methods =
     [''constructor'', ''hasOwnProperty'', ''isPrototypeOf'', ''propertyIsEnumerable'',
      ''toLocaleString'', ''toString'', ''valueOf'',
      ''__defineGetter__'', ''__defineSetter__'', ''__lookupGetter__'', ''__lookupSetter__'']"

text \<open>\<^verbatim>\<open>k in o\<close> for a property \<open>k\<close> that is not an own property of the plain object \<open>o\<close>.\<close>

definition inherited_by_object :: "string \<Rightarrow> bool" where
  "inherited_by_object k = (k = ''__proto__'' \<or> k \<in> set object_prototype_methods)"

text \<open>
  The properties a string primitive inherits from \<^verbatim>\<open>String.prototype\<close> and, through it,
  from \<^verbatim>\<open>Object.prototype\<close> (ECMA-262 2024, with Annex B).
\<close>

definition string_prototype_methods :: "string list" where
  "string_prototype_methods =
     [''at'', ''charAt'', ''charCodeAt'', ''codePointAt'', ''concat'', ''endsWith'',
      ''includes'', ''indexOf'', ''isWellFormed'', ''lastIndexOf'', ''localeCompare'',
      ''match'', ''matchAll'', ''normalize'', ''padEnd'', ''padStart'', ''repeat'',
      ''replace'', ''replaceAll'', ''search'', ''slice'', ''split'', ''startsWith'',
      ''substring'', ''toLocaleLowerCase'', ''toLocaleUpperCase'', ''toLowerCase'',
      ''toUpperCase'', ''toWellFormed'', ''trim'', ''trimEnd'', ''trimStart'',
      ''substr'', ''anchor'', ''big'', ''blink'', ''bold'', ''fixed'', ''fontcolor'',
      ''fontsize'', ''italics'', ''link'', ''small'', ''strike'', ''sub'', ''sup'',
      ''trimLeft'', ''trimRight'']"

definition inherited_by_string :: "string \<Rightarrow> bool" where
  "inherited_by_string k = (k \<in> set string_prototype_methods \<or> inherited_by_object k)"

text \<open>
  Reading a property, \<^verbatim>\<open>value[k]\<close>. The read of an own property, of a string's characters
  and length, and of what a plain object inherits is modelled exactly. The object graph of
  the runtime's built-in functions is not: a read that would have to enter it
  (a property of a built-in function, of a number, or an inherited property of a string)
  is \<open>Unmodelled\<close>, and no theorem below says anything about such a read.
  Reading a property of \<^verbatim>\<open>null\<close> or \<^verbatim>\<open>undefined\<close> throws a TypeError.
\<close>

datatype read = Got jsval | Throws | Unmodelled

definition object_prototype_get :: "string \<Rightarrow> jsval" where
  "object_prototype_get k =
     (if k \<in> set object_prototype_methods then JBuiltin (Method k) else JUndefined)"

fun get_property :: "jsval \<Rightarrow> string \<Rightarrow> read" where
  "get_property JUndefined k = Throws"
| "get_property JNull k = Throws"
| "get_property (JObj ps) k =
     (case map_of ps k of
        Some t \<Rightarrow> Got (of_tree t)
      | None \<Rightarrow>
          if k = ''__proto__'' then Got (JBuiltin ObjectPrototype)
          else Got (object_prototype_get k))"
| "get_property (JStr s) k =
     (case canonical_index k of
        Some i \<Rightarrow> if i < length s then Got (JStr [s ! i]) else Got JUndefined
      | None \<Rightarrow>
          if k = ''length'' then Got (JNum (length s))
          else if inherited_by_string k then Unmodelled
          else Got JUndefined)"
| "get_property (JNum n) k = Unmodelled"
| "get_property (JBuiltin ObjectPrototype) k =
     (if k = ''__proto__'' then Got JNull else Got (object_prototype_get k))"
| "get_property (JBuiltin (Method m)) k = Unmodelled"

text \<open>\<^verbatim>\<open>typeof v === 'object'\<close>; note that it holds of \<^verbatim>\<open>null\<close>.\<close>

fun typeof_object :: "jsval \<Rightarrow> bool" where
  "typeof_object JNull = True"
| "typeof_object (JObj ps) = True"
| "typeof_object (JBuiltin ObjectPrototype) = True"
| "typeof_object v = False"

text \<open>\<^verbatim>\<open>k in v\<close>, for the object values on which the engine evaluates it.\<close>

fun has_property :: "jsval \<Rightarrow> string \<Rightarrow> bool" where
  "has_property (JObj ps) k = (map_of ps k \<noteq> None \<or> inherited_by_object k)"
| "has_property (JBuiltin ObjectPrototype) k = inherited_by_object k"
| "has_property v k = False"

section \<open>The key resolvers\<close>

subsection \<open>\<^verbatim>\<open>SimpleLanguageToggle.getTranslation\<close>\<close>

text \<open>
  \<^verbatim>\<open>
  getTranslation(key, language) {
      const keys = key.split('.');
      let value = this.translations[language];
      for (const k of keys) {
          if (value && value[k] !== undefined) { value = value[k]; }
          else { return null; }
      }
      return value;
  }
  \<close>
  The function has no handler of its own, so a throwing read would leave it as an
  exception; \<open>SLT_never_throws\<close> below shows that the guard \<^verbatim>\<open>value &&\<close> excludes that.
\<close>

fun SLT_walk :: "jsval \<Rightarrow> string list \<Rightarrow> read" where
  "SLT_walk v [] = Got v"
| "SLT_walk v (k # ks) =
     (if truthy v then
        (case get_property v k of
           Got w \<Rightarrow> if w \<noteq> JUndefined then SLT_walk w ks else Got JNull
         | Throws \<Rightarrow> Throws
         | Unmodelled \<Rightarrow> Unmodelled)
      else Got JNull)"

text \<open>\<open>translations\<close> is the widget's \<^verbatim>\<open>this.translations\<close>, an object keyed by language.\<close>

definition translations_for :: "tobject \<Rightarrow> string \<Rightarrow> jsval" where
  "translations_for translations language =
     (case get_property (JObj translations) language of Got v \<Rightarrow> v | _ \<Rightarrow> JUndefined)"

definition SLT_getTranslation :: "tobject \<Rightarrow> string \<Rightarrow> string \<Rightarrow> read" where
  "SLT_getTranslation translations key language =
     SLT_walk (translations_for translations language) (split_on CHR ''.'' key)"

subsection \<open>\<^verbatim>\<open>LocalizationEngine.getTranslation\<close>\<close>

text \<open>
  \<^verbatim>\<open>
  getTranslation(key, translations = null) {
    try {
      const trans = translations || this.translations.get(this.currentLanguage);
      if (!trans) return null;
      const keys = key.split('.');
      let result = trans;
      for (const k of keys) {
        if (result && typeof result === 'object' && k in result) { result = result[k]; }
        else { return null; }
      }
      return result;
    } catch (error) { return null; }
  }
  \<close>
  \<open>translations\<close> is the argument (\<open>None\<close> for \<^verbatim>\<open>null\<close>) and \<open>current\<close> what
  \<^verbatim>\<open>this.translations.get(this.currentLanguage)\<close> holds. A read that throws is caught
  and gives \<^verbatim>\<open>null\<close>. The walk only reads properties of objects, so it never leaves
  the modelled values; the last case of \<open>LE_walk\<close> is there for totality only.
\<close>

fun LE_walk :: "jsval \<Rightarrow> string list \<Rightarrow> jsval" where
  "LE_walk r [] = r"
| "LE_walk r (k # ks) =
     (if truthy r \<and> typeof_object r \<and> has_property r k then
        (case get_property r k of
           Got w \<Rightarrow> LE_walk w ks
         | Throws \<Rightarrow> JNull
         | Unmodelled \<Rightarrow> JNull)
      else JNull)"

definition LE_getTranslation :: "tree option \<Rightarrow> string \<Rightarrow> tree option \<Rightarrow> jsval" where
  "LE_getTranslation current key translations =
     (let trans = (case translations of
                     Some t \<Rightarrow> if truthy (of_tree t) then Some t else current
                   | None \<Rightarrow> current)
      in case trans of
           None \<Rightarrow> JNull
         | Some t \<Rightarrow>
             if \<not> truthy (of_tree t) then JNull
             else LE_walk (of_tree t) (split_on CHR ''.'' key))"

subsection \<open>The resolver of the specification\<close>

text \<open>
  The specification's \<open>resolve(tree, dottedKey)\<close>, written from its words: split the key
  on \<open>.\<close>, walk the tree one segment at a time, and give NOT_FOUND (\<open>None\<close>) when a segment
  is absent or the tree is not a keyed mapping at that point. \<open>lookup_path\<close> is the walk;
  it yields whatever stands at the end of the path, a leaf or a subtree.
\<close>

fun lookup_path :: "tree \<Rightarrow> string list \<Rightarrow> tree option" where
  "lookup_path t [] = Some t"
| "lookup_path (Leaf s) (k # ks) = None"
| "lookup_path (Node ps) (k # ks) =
     (case map_of ps k of None \<Rightarrow> None | Some t \<Rightarrow> lookup_path t ks)"

section \<open>Stored language preference of the widget\<close>

text \<open>
  An exception is a value. \<^verbatim>\<open>localStorage\<close> is either inaccessible, in which case every
  use of it throws, or a store from keys to strings.
\<close>

datatype exn = TypeError string | SecurityError | Error string

type_synonym storage = "exn + (string \<Rightarrow> string option)"

text \<open>
  \<^verbatim>\<open>
  getStoredLanguage() {
      try {
          const stored = localStorage.getItem('marln_language_preference');
          return stored === 'ar' ? 'ar' : 'en';
      } catch (error) { return 'en'; }
  }
  \<close>
\<close>

definition getItem :: "storage \<Rightarrow> string \<Rightarrow> exn + string option" where
  "getItem ls k = (case ls of Inl e \<Rightarrow> Inl e | Inr store \<Rightarrow> Inr (store k))"

definition getStoredLanguage :: "storage \<Rightarrow> string" where
  "getStoredLanguage ls =
     (case getItem ls ''marln_language_preference'' of
        Inr stored \<Rightarrow> if stored = Some ''ar'' then ''ar'' else ''en''
      | Inl error \<Rightarrow> ''en'')"

section \<open>The document\<close>

text \<open>
  An element has a tag name, the value of its \<^verbatim>\<open>type\<close> property, its attributes, and the
  properties that scripts have set on the element object without a reflecting attribute
  (the \<^verbatim>\<open>value\<close> of a control, a \<^verbatim>\<open>placeholder\<close> set on an element that is no control).
  The document is the forest of its nodes in document order.
\<close>

record element =
  tagName :: string
  inputType :: string
  attributes :: "string \<Rightarrow> string option"
  properties :: "string \<Rightarrow> jsval option"

datatype node = TextNode string | Element element "node list"

definition getAttribute :: "element \<Rightarrow> string \<Rightarrow> string option" where
  "getAttribute e a = attributes e a"

definition hasAttribute :: "element \<Rightarrow> string \<Rightarrow> bool" where
  "hasAttribute e a = (attributes e a \<noteq> None)"

text \<open>
  The string a JavaScript value is converted to when it is assigned to an attribute or to
  \<^verbatim>\<open>textContent\<close>. The source text of a built-in function is implementation-defined and
  not modelled (\<open>None\<close>).
\<close>

function show_nat :: "nat \<Rightarrow> string" where
  "show_nat n =
     (if n < 10 then [char_of (48 + n)]
      else show_nat (n div 10) @ [char_of (48 + n mod 10)])"
  by pat_completeness auto
termination
  by (relation "measure id") auto

fun js_to_string :: "jsval \<Rightarrow> string option" where
  "js_to_string JUndefined = Some ''undefined''"
| "js_to_string JNull = Some ''null''"
| "js_to_string (JStr s) = Some s"
| "js_to_string (JNum n) = Some (show_nat n)"
| "js_to_string (JObj ps) = Some ''[object Object]''"
| "js_to_string (JBuiltin ObjectPrototype) = Some ''[object Object]''"
| "js_to_string (JBuiltin (Method m)) = None"

text \<open>
  \<^verbatim>\<open>element.placeholder = v\<close>. On an \<^verbatim>\<open>INPUT\<close> or \<^verbatim>\<open>TEXTAREA\<close> the property reflects the
  attribute of the same name, so the assignment sets the attribute to the string of \<open>v\<close>;
  on any other element it creates a plain property and leaves the attributes alone.
\<close>

definition reflects_placeholder :: "element \<Rightarrow> bool" where
  "reflects_placeholder e = (tagName e = ''INPUT'' \<or> tagName e = ''TEXTAREA'')"

definition set_placeholder :: "element \<Rightarrow> jsval \<Rightarrow> element option" where
  "set_placeholder e v =
     (if reflects_placeholder e then
        (case js_to_string v of
           None \<Rightarrow> None
         | Some s \<Rightarrow> Some (e\<lparr>attributes := (attributes e)(''placeholder'' \<mapsto> s)\<rparr>))
      else Some (e\<lparr>properties := (properties e)(''placeholder'' \<mapsto> v)\<rparr>))"

text \<open>
  \<^verbatim>\<open>element.value = v\<close>: the assignment is recorded in the element's \<^verbatim>\<open>value\<close> property.
  What a particular form control derives from the assigned value is left to the host.
\<close>

definition set_value :: "element \<Rightarrow> jsval \<Rightarrow> element" where
  "set_value e v = e\<lparr>properties := (properties e)(''value'' \<mapsto> v)\<rparr>"

text \<open>\<^verbatim>\<open>element.textContent = s\<close> replaces the children by one text node, or by none.\<close>

definition textContent :: "string \<Rightarrow> node list" where
  "textContent s = (if s = [] then [] else [TextNode s])"

text \<open>
  \<^verbatim>\<open>element.innerHTML = s\<close> replaces the children by what the host's HTML fragment parser
  yields for \<open>s\<close> in the context of the element. The parser is a parameter
  \<open>parseHTML :: string \<Rightarrow> string \<Rightarrow> node list\<close> (tag name of the context element, markup).
\<close>

type_synonym parser = "string \<Rightarrow> string \<Rightarrow> node list"

text \<open>The elements of a forest, in document order: what \<^verbatim>\<open>querySelectorAll('*')\<close> lists.\<close>

fun elements_of :: "node \<Rightarrow> element list"
  and elements_of_list :: "node list \<Rightarrow> element list" where
  "elements_of (TextNode s) = []"
| "elements_of (Element e kids) = e # elements_of_list kids"
| "elements_of_list [] = []"
| "elements_of_list (n # ns) = elements_of n @ elements_of_list ns"

text \<open>The getter \<^verbatim>\<open>node.textContent\<close>: the text below a node, in document order.\<close>

fun text_of :: "node \<Rightarrow> string"
  and text_of_list :: "node list \<Rightarrow> string" where
  "text_of (TextNode s) = s"
| "text_of (Element e kids) = text_of_list kids"
| "text_of_list [] = []"
| "text_of_list (n # ns) = text_of n @ text_of_list ns"

text \<open>\<^verbatim>\<open>classList.add\<close> and \<^verbatim>\<open>classList.remove\<close> on a list of class names.\<close>

definition classList_add :: "string \<Rightarrow> string list \<Rightarrow> string list" where
  "classList_add c cs = (if c \<in> set cs then cs else cs @ [c])"

definition classList_remove :: "string \<Rightarrow> string list \<Rightarrow> string list" where
  "classList_remove c cs = filter (\<lambda>x. x \<noteq> c) cs"

text \<open>
  How a run over the document ends: normally, leaving a document; by a thrown exception,
  leaving the document as it was when the exception was thrown; or outside the model,
  when it needs a read or a conversion that is not modelled.
\<close>

datatype 'a run = Normal 'a | Abrupt exn 'a | Beyond



section \<open>\<^verbatim>\<open>SimpleLanguageToggle\<close>: the DOM synchronizer of the widget\<close>

text \<open>
  \<^verbatim>\<open>
  findPartialTranslation(key, language) {
      const keys = key.split('.');
      const possibleMatches = [];
      for (let i = 1; i < keys.length; i++) {
          const partialKey = keys.slice(0, i).join('.');
          const translation = this.getTranslation(partialKey, language);
          if (translation) { possibleMatches.push({ key: partialKey, translation }); }
      }
  }
  \<close>
  The matches are dropped; what remains of the call is whether its reads return.
\<close>

fun join_with :: "char \<Rightarrow> string list \<Rightarrow> string" where
  "join_with c [] = []"
| "join_with c [s] = s"
| "join_with c (s # t # ts) = s @ c # join_with c (t # ts)"

fun partial_matches :: "tobject \<Rightarrow> string \<Rightarrow> string list \<Rightarrow> nat list \<Rightarrow> (string \<times> jsval) list run" where
  "partial_matches translations language keys [] = Normal []"
| "partial_matches translations language keys (i # is) =
     (let partialKey = join_with CHR ''.'' (take i keys) in
      case SLT_getTranslation translations partialKey language of
        Got v \<Rightarrow>
          (case partial_matches translations language keys is of
             Normal ms \<Rightarrow> Normal (if truthy v then (partialKey, v) # ms else ms)
           | r \<Rightarrow> r)
      | Throws \<Rightarrow> Abrupt (TypeError ''read of a property of null'') []
      | Unmodelled \<Rightarrow> Beyond)"

definition findPartialTranslation :: "tobject \<Rightarrow> string \<Rightarrow> string \<Rightarrow> (string \<times> jsval) list run" where
  "findPartialTranslation translations key language =
     (let keys = split_on CHR ''.'' key
      in partial_matches translations language keys [1 ..< length keys])"

text \<open>
  What the visit of one element does to it: nothing, a change of its attributes or
  properties, the replacement of its children, an exception, or something not modelled.
\<close>

datatype effect =
    Unchanged
  | Updated element
  | Children "node list"
  | Raises exn
  | NotModelled


text \<open>\<^verbatim>\<open>translation.includes('<') && translation.includes('>')\<close> on a string.\<close>

definition has_markup :: "string \<Rightarrow> bool" where
  "has_markup s = (CHR ''<'' \<in> set s \<and> CHR ''>'' \<in> set s)"

text \<open>
  The callback of the first \<^verbatim>\<open>forEach\<close> of \<^verbatim>\<open>applyTranslations\<close>, for an element that
  carries \<^verbatim>\<open>data-i18n\<close>:
  \<^verbatim>\<open>
  const key = element.getAttribute('data-i18n');
  const translation = this.getTranslation(key, language);
  if (translation) {
      if (element.tagName === 'INPUT' && element.type === 'placeholder') {
          element.placeholder = translation;
      } else if (element.hasAttribute('placeholder')) {
          element.placeholder = translation;
      } else {
          if (translation.includes('<') && translation.includes('>')) {
              element.innerHTML = translation;
          } else {
              element.textContent = translation;
          }
      }
  } else {
      this.findPartialTranslation(key, language);
  }
  \<close>
  Only a string has a method \<^verbatim>\<open>includes\<close> among the values a translation can be: on an
  object, a number or a built-in function \<^verbatim>\<open>translation.includes\<close> is not a function,
  and the call throws a TypeError.
\<close>

definition placeholder_branch :: "element \<Rightarrow> bool" where
  "placeholder_branch e =
     ((tagName e = ''INPUT'' \<and> inputType e = ''placeholder'') \<or> hasAttribute e ''placeholder'')"

definition textCallback :: "parser \<Rightarrow> tobject \<Rightarrow> string \<Rightarrow> element \<Rightarrow> effect" where
  "textCallback parseHTML translations language e =
     (case getAttribute e ''data-i18n'' of
        None \<Rightarrow> Unchanged
      | Some key \<Rightarrow>
          (case SLT_getTranslation translations key language of
             Throws \<Rightarrow> Raises (TypeError ''read of a property of null'')
           | Unmodelled \<Rightarrow> NotModelled
           | Got translation \<Rightarrow>
               if truthy translation then
                 if placeholder_branch e then
                   (case set_placeholder e translation of
                      None \<Rightarrow> NotModelled
                    | Some e' \<Rightarrow> Updated e')
                 else
                   (case translation of
                      JStr s \<Rightarrow>
                        if has_markup s then Children (parseHTML (tagName e) s)
                        else Children (textContent s)
                    | _ \<Rightarrow> Raises (TypeError ''translation.includes is not a function''))
               else
                 (case findPartialTranslation translations key language of
                    Normal ms \<Rightarrow> Unchanged
                  | Abrupt x ms \<Rightarrow> Raises x
                  | Beyond \<Rightarrow> NotModelled)))"

text \<open>
  The callbacks of the second and third \<^verbatim>\<open>forEach\<close>:
  \<^verbatim>\<open>
  const key = element.getAttribute('data-i18n-placeholder');
  const translation = this.getTranslation(key, language);
  if (translation) { element.placeholder = translation; }
  \<close>
  and the same with \<^verbatim>\<open>data-i18n-value\<close> and \<^verbatim>\<open>element.value\<close>.
\<close>

definition placeholderCallback :: "tobject \<Rightarrow> string \<Rightarrow> element \<Rightarrow> effect" where
  "placeholderCallback translations language e =
     (case getAttribute e ''data-i18n-placeholder'' of
        None \<Rightarrow> Unchanged
      | Some key \<Rightarrow>
          (case SLT_getTranslation translations key language of
             Throws \<Rightarrow> Raises (TypeError ''read of a property of null'')
           | Unmodelled \<Rightarrow> NotModelled
           | Got translation \<Rightarrow>
               if truthy translation then
                 (case set_placeholder e translation of
                    None \<Rightarrow> NotModelled
                  | Some e' \<Rightarrow> Updated e')
               else Unchanged))"

definition valueCallback :: "tobject \<Rightarrow> string \<Rightarrow> element \<Rightarrow> effect" where
  "valueCallback translations language e =
     (case getAttribute e ''data-i18n-value'' of
        None \<Rightarrow> Unchanged
      | Some key \<Rightarrow>
          (case SLT_getTranslation translations key language of
             Throws \<Rightarrow> Raises (TypeError ''read of a property of null'')
           | Unmodelled \<Rightarrow> NotModelled
           | Got translation \<Rightarrow>
               if truthy translation then Updated (set_value e translation)
               else Unchanged))"

text \<open>
  \<^verbatim>\<open>document.querySelectorAll(sel).forEach(callback)\<close>. The list is a snapshot taken
  before the first visit, in document order, so an element is visited before its
  descendants, and a descendant is visited even after a visit to an ancestor has replaced
  the ancestor's children and so removed it from the document: what the visit then writes
  is written to a detached node and is not seen in the document, but an exception it
  throws ends the loop all the same. An exception ends the loop with the writes made so
  far in place. \<open>forEach_node\<close> visits an element and then the nodes below it.
\<close>

fun forEach_node :: "(element \<Rightarrow> effect) \<Rightarrow> node \<Rightarrow> node run"
  and forEach_list :: "(element \<Rightarrow> effect) \<Rightarrow> node list \<Rightarrow> node list run" where
  "forEach_node callback (TextNode s) = Normal (TextNode s)"
| "forEach_node callback (Element e kids) =
     (case callback e of
        Unchanged \<Rightarrow>
          (case forEach_list callback kids of
             Normal kids' \<Rightarrow> Normal (Element e kids')
           | Abrupt x kids' \<Rightarrow> Abrupt x (Element e kids')
           | Beyond \<Rightarrow> Beyond)
      | Updated e' \<Rightarrow>
          (case forEach_list callback kids of
             Normal kids' \<Rightarrow> Normal (Element e' kids')
           | Abrupt x kids' \<Rightarrow> Abrupt x (Element e' kids')
           | Beyond \<Rightarrow> Beyond)
      | Children new \<Rightarrow>
          (case forEach_list callback kids of
             Normal detached \<Rightarrow> Normal (Element e new)
           | Abrupt x detached \<Rightarrow> Abrupt x (Element e new)
           | Beyond \<Rightarrow> Beyond)
      | Raises x \<Rightarrow> Abrupt x (Element e kids)
      | NotModelled \<Rightarrow> Beyond)"
| "forEach_list callback [] = Normal []"
| "forEach_list callback (n # ns) =
     (case forEach_node callback n of
        Normal n' \<Rightarrow>
          (case forEach_list callback ns of
             Normal ns' \<Rightarrow> Normal (n' # ns')
           | Abrupt x ns' \<Rightarrow> Abrupt x (n' # ns')
           | Beyond \<Rightarrow> Beyond)
      | Abrupt x n' \<Rightarrow> Abrupt x (n' # ns)
      | Beyond \<Rightarrow> Beyond)"

text \<open>\<^verbatim>\<open>Object.keys(v).length\<close> for the value stored for a language.\<close>

fun own_keys_count :: "jsval \<Rightarrow> nat" where
  "own_keys_count (JObj ps) = length (remdups (map fst ps))"
| "own_keys_count (JStr s) = length s"
| "own_keys_count v = 0"

text \<open>
  \<^verbatim>\<open>
  applyTranslations(language) {
      if (!this.translations[language]) { return; }
      if (!this.translations[language]
          || Object.keys(this.translations[language]).length === 0) { return; }
      document.querySelectorAll('[data-i18n]').forEach(...);
      document.querySelectorAll('[data-i18n-placeholder]').forEach(...);
      document.querySelectorAll('[data-i18n-value]').forEach(...);
      document.querySelectorAll('.faq [data-i18n], [class*="faq"] [data-i18n]')
          .forEach(element => { const key = element.getAttribute('data-i18n'); });
  }
  \<close>
  A callback leaves an element without its marker \<open>Unchanged\<close>, so running it over every
  element is running it over the selected ones. The last loop only reads.
\<close>

definition applyTranslations :: "parser \<Rightarrow> tobject \<Rightarrow> string \<Rightarrow> node list \<Rightarrow> node list run" where
  "applyTranslations parseHTML translations language document =
     (if \<not> truthy (translations_for translations language) then Normal document
      else if own_keys_count (translations_for translations language) = 0 then Normal document
      else
        (case forEach_list (textCallback parseHTML translations language) document of
           Normal d1 \<Rightarrow>
             (case forEach_list (placeholderCallback translations language) d1 of
                Normal d2 \<Rightarrow> forEach_list (valueCallback translations language) d2
              | r \<Rightarrow> r)
         | r \<Rightarrow> r))"

section \<open>\<^verbatim>\<open>SimpleLanguageToggle\<close>: the toggle\<close>

text \<open>
  The page around the content: the \<^verbatim>\<open>lang\<close> and \<^verbatim>\<open>dir\<close> attributes and the classes of
  the \<^verbatim>\<open>html\<close> element, the classes of \<^verbatim>\<open>body\<close>, the toggle button that \<^verbatim>\<open>createToggle\<close>
  has put into the container (\<open>None\<close> when there is none), and the content that carries
  the markers. Inline styles are not part of the model, and neither are the two labels
  of the button, which every update sets to the same two constants.
\<close>

record toggle_button =
  dataCurrentLang :: string
  sliderClasses :: "string list"
  enOptionClasses :: "string list"
  arOptionClasses :: "string list"

record page =
  htmlLang :: "string option"
  htmlDir :: "string option"
  htmlClasses :: "string list"
  bodyClasses :: "string list"
  toggleButton :: "toggle_button option"
  content :: "node list"



text \<open>
  \<^verbatim>\<open>
  saveLanguagePreference(language) {
      try { localStorage.setItem('marln_language_preference', language); }
      catch (error) { }
  }
  \<close>
\<close>

definition setItem :: "storage \<Rightarrow> string \<Rightarrow> string \<Rightarrow> exn + storage" where
  "setItem ls k v = (case ls of Inl e \<Rightarrow> Inl e | Inr store \<Rightarrow> Inr (Inr (store(k \<mapsto> v))))"




section \<open>Well-marked documents, and the synchronizer as a function\<close>

text \<open>
  The three marker attributes. An element is well marked for a language when each of its
  marker keys resolves to a string or to \<^verbatim>\<open>null\<close>, and the markup that the text marker may
  be parsed to carries no marker itself.
\<close>

definition marker_attributes :: "string list" where
  "marker_attributes = [''data-i18n'', ''data-i18n-placeholder'', ''data-i18n-value'']"

definition carries_marker :: "element \<Rightarrow> bool" where
  "carries_marker e = list_ex (hasAttribute e) marker_attributes"

definition marker_free :: "node list \<Rightarrow> bool" where
  "marker_free ns = (\<not> list_ex carries_marker (elements_of_list ns))"

fun resolves_plainly :: "read \<Rightarrow> bool" where
  "resolves_plainly (Got (JStr s)) = True"
| "resolves_plainly (Got JNull) = True"
| "resolves_plainly r = False"

definition well_marked :: "parser \<Rightarrow> tobject \<Rightarrow> string \<Rightarrow> element \<Rightarrow> bool" where
  "well_marked parseHTML translations language e =
     (list_all
        (\<lambda>a. case getAttribute e a of
               None \<Rightarrow> True
             | Some key \<Rightarrow> resolves_plainly (SLT_getTranslation translations key language))
        marker_attributes
      \<and> (case getAttribute e ''data-i18n'' of
            None \<Rightarrow> True
          | Some key \<Rightarrow>
              (case SLT_getTranslation translations key language of
                 Got (JStr s) \<Rightarrow> has_markup s \<longrightarrow> marker_free (parseHTML (tagName e) s)
               | _ \<Rightarrow> True)))"

text \<open>The value a key resolves to, with \<^verbatim>\<open>null\<close> where the resolver gives no value.\<close>

definition resolved :: "tobject \<Rightarrow> string \<Rightarrow> string \<Rightarrow> jsval" where
  "resolved translations language key =
     (case SLT_getTranslation translations key language of Got v \<Rightarrow> v | _ \<Rightarrow> JNull)"

text \<open>
  \<open>mirrored translations l1 l2 e\<close>: every marker of \<open>e\<close> that resolves to a truthy value in
  language \<open>l2\<close> does so in language \<open>l1\<close>.
\<close>

definition mirrored :: "tobject \<Rightarrow> string \<Rightarrow> string \<Rightarrow> element \<Rightarrow> bool" where
  "mirrored translations l1 l2 e =
     list_all
       (\<lambda>a. case getAttribute e a of
              None \<Rightarrow> True
            | Some key \<Rightarrow>
                truthy (resolved translations l2 key) \<longrightarrow> truthy (resolved translations l1 key))
       marker_attributes"




text \<open>
  The rest of this section serves the proofs only. On a well-marked document a pass of
  \<open>applyTranslations\<close> is the function \<open>sync\<close>, written for a resolver \<open>r\<close> from keys to
  values: \<open>text1\<close> is the first loop, \<open>mapE\<close> of \<open>phE\<close> and of \<open>valE\<close> the second and third.
\<close>

definition marker_value :: "(string \<Rightarrow> jsval) \<Rightarrow> element \<Rightarrow> string \<Rightarrow> jsval" where
  "marker_value r e a = (case getAttribute e a of None \<Rightarrow> JNull | Some key \<Rightarrow> r key)"

definition put_placeholder :: "element \<Rightarrow> jsval \<Rightarrow> element" where
  "put_placeholder e v = (case set_placeholder e v of None \<Rightarrow> e | Some e' \<Rightarrow> e')"

definition replaces :: "(string \<Rightarrow> jsval) \<Rightarrow> element \<Rightarrow> bool" where
  "replaces r e = (truthy (marker_value r e ''data-i18n'') \<and> \<not> placeholder_branch e)"

definition new_children :: "parser \<Rightarrow> (string \<Rightarrow> jsval) \<Rightarrow> element \<Rightarrow> node list" where
  "new_children parseHTML r e =
     (case marker_value r e ''data-i18n'' of
        JStr s \<Rightarrow> if has_markup s then parseHTML (tagName e) s else textContent s
      | _ \<Rightarrow> [])"

definition textE :: "(string \<Rightarrow> jsval) \<Rightarrow> element \<Rightarrow> element" where
  "textE r e =
     (if truthy (marker_value r e ''data-i18n'') \<and> placeholder_branch e
      then put_placeholder e (marker_value r e ''data-i18n'') else e)"

definition phE :: "(string \<Rightarrow> jsval) \<Rightarrow> element \<Rightarrow> element" where
  "phE r e =
     (if truthy (marker_value r e ''data-i18n-placeholder'')
      then put_placeholder e (marker_value r e ''data-i18n-placeholder'') else e)"

definition valE :: "(string \<Rightarrow> jsval) \<Rightarrow> element \<Rightarrow> element" where
  "valE r e =
     (if truthy (marker_value r e ''data-i18n-value'')
      then set_value e (marker_value r e ''data-i18n-value'') else e)"

fun text1 :: "parser \<Rightarrow> (string \<Rightarrow> jsval) \<Rightarrow> node \<Rightarrow> node" where
  "text1 parseHTML r (TextNode s) = TextNode s"
| "text1 parseHTML r (Element e kids) =
     (if replaces r e then Element e (new_children parseHTML r e)
      else Element (textE r e) (map (text1 parseHTML r) kids))"

fun mapE :: "(element \<Rightarrow> element) \<Rightarrow> node \<Rightarrow> node" where
  "mapE f (TextNode s) = TextNode s"
| "mapE f (Element e kids) = Element (f e) (map (mapE f) kids)"

definition sync :: "parser \<Rightarrow> (string \<Rightarrow> jsval) \<Rightarrow> node \<Rightarrow> node" where
  "sync parseHTML r n = mapE (valE r) (mapE (phE r) (text1 parseHTML r n))"

definition syncE :: "(string \<Rightarrow> jsval) \<Rightarrow> element \<Rightarrow> element" where
  "syncE r e = valE r (phE r (textE r e))"

text \<open>
  \<open>fit parseHTML rS rT e\<close>: under the resolver \<open>rS\<close> the markers of \<open>e\<close> have strings or
  \<^verbatim>\<open>null\<close> as values and the new children carry no markers, and a marker that has a truthy
  value under \<open>rT\<close> has one under \<open>rS\<close>.
\<close>

fun plain :: "jsval \<Rightarrow> bool" where
  "plain (JStr s) = True"
| "plain JNull = True"
| "plain v = False"

definition fit :: "parser \<Rightarrow> (string \<Rightarrow> jsval) \<Rightarrow> (string \<Rightarrow> jsval) \<Rightarrow> element \<Rightarrow> bool" where
  "fit parseHTML rS rT e =
     ((\<forall>a \<in> set marker_attributes.
         plain (marker_value rS e a)
         \<and> (truthy (marker_value rT e a) \<longrightarrow> truthy (marker_value rS e a)))
      \<and> marker_free (new_children parseHTML rS e))"

section \<open>\<^verbatim>\<open>LocalizationEngine\<close>\<close>

subsection \<open>Configuration\<close>

text \<open>
  The registry \<^verbatim>\<open>SUPPORTED_LANGUAGES\<close> of \<^verbatim>\<open>config/supported-languages.js\<close>, without the
  native names and the flags, and the settings of \<^verbatim>\<open>config/settings.js\<close> that the engine
  reads.
\<close>

record language_info =
  langName :: string
  langCode :: string
  rtl :: bool
  direction :: string
  dateFormat :: string
  timeFormat :: string
  currency :: string
  localeName :: string

definition SUPPORTED_LANGUAGES :: "(string \<times> language_info) list" where
  "SUPPORTED_LANGUAGES =
     [(''en'', \<lparr>langName = ''English'', langCode = ''en'', rtl = False, direction = ''ltr'',
               dateFormat = ''MM/DD/YYYY'', timeFormat = ''12h'', currency = ''USD'',
               localeName = ''en-US''\<rparr>),
      (''ar'', \<lparr>langName = ''Arabic'', langCode = ''ar'', rtl = True, direction = ''rtl'',
               dateFormat = ''DD/MM/YYYY'', timeFormat = ''24h'', currency = ''SAR'',
               localeName = ''ar-SA''\<rparr>),
      (''es'', \<lparr>langName = ''Spanish'', langCode = ''es'', rtl = False, direction = ''ltr'',
               dateFormat = ''DD/MM/YYYY'', timeFormat = ''24h'', currency = ''EUR'',
               localeName = ''es-ES''\<rparr>),
      (''fr'', \<lparr>langName = ''French'', langCode = ''fr'', rtl = False, direction = ''ltr'',
               dateFormat = ''DD/MM/YYYY'', timeFormat = ''24h'', currency = ''EUR'',
               localeName = ''fr-FR''\<rparr>),
      (''de'', \<lparr>langName = ''German'', langCode = ''de'', rtl = False, direction = ''ltr'',
               dateFormat = ''DD.MM.YYYY'', timeFormat = ''24h'', currency = ''EUR'',
               localeName = ''de-DE''\<rparr>),
      (''zh'', \<lparr>langName = ''Chinese'', langCode = ''zh'', rtl = False, direction = ''ltr'',
               dateFormat = ''YYYY-MM-DD'', timeFormat = ''24h'', currency = ''CNY'',
               localeName = ''zh-CN''\<rparr>),
      (''ja'', \<lparr>langName = ''Japanese'', langCode = ''ja'', rtl = False, direction = ''ltr'',
               dateFormat = ''YYYY-MM-DD'', timeFormat = ''24h'', currency = ''JPY'',
               localeName = ''ja-JP''\<rparr>),
      (''ko'', \<lparr>langName = ''Korean'', langCode = ''ko'', rtl = False, direction = ''ltr'',
               dateFormat = ''YYYY-MM-DD'', timeFormat = ''24h'', currency = ''KRW'',
               localeName = ''ko-KR''\<rparr>),
      (''hi'', \<lparr>langName = ''Hindi'', langCode = ''hi'', rtl = False, direction = ''ltr'',
               dateFormat = ''DD/MM/YYYY'', timeFormat = ''24h'', currency = ''INR'',
               localeName = ''hi-IN''\<rparr>),
      (''pt'', \<lparr>langName = ''Portuguese'', langCode = ''pt'', rtl = False, direction = ''ltr'',
               dateFormat = ''DD/MM/YYYY'', timeFormat = ''24h'', currency = ''EUR'',
               localeName = ''pt-PT''\<rparr>)]"

definition defaultLanguage :: string where "defaultLanguage = ''en''"
definition fallbackLanguage :: string where "fallbackLanguage = ''en''"
definition urlParameter :: string where "urlParameter = ''lang''"
definition cookieName :: string where "cookieName = ''marln-lang''"
definition localStorageKey :: string where "localStorageKey = ''marln-language''"
definition cacheExpiry :: int where "cacheExpiry = 3600000"
definition preloadLanguageCodes :: "string list" where "preloadLanguageCodes = [''en'', ''ar'']"

text \<open>
  \<^verbatim>\<open>SUPPORTED_LANGUAGES[code]\<close>. The registry is a plain object, so the read finds its own
  entries and, for any other name, what the object inherits from \<^verbatim>\<open>Object.prototype\<close>.
\<close>

datatype registry_value = Info language_info | Inherited builtin | Absent

definition registry_get :: "string \<Rightarrow> registry_value" where
  "registry_get c =
     (case map_of SUPPORTED_LANGUAGES c of
        Some info \<Rightarrow> Info info
      | None \<Rightarrow>
          if c = ''__proto__'' then Inherited ObjectPrototype
          else if c \<in> set object_prototype_methods then Inherited (Method c)
          else Absent)"

text \<open>The test \<^verbatim>\<open>if (!SUPPORTED_LANGUAGES[code])\<close>, negated: objects and functions are truthy.\<close>

definition registry_truthy :: "string \<Rightarrow> bool" where
  "registry_truthy c = (registry_get c \<noteq> Absent)"

text \<open>A language code as a string, as a template literal or an attribute renders it.\<close>

definition code_string :: "string option \<Rightarrow> string" where
  "code_string c = (case c of None \<Rightarrow> ''null'' | Some s \<Rightarrow> s)"

text \<open>
  \<^verbatim>\<open>isRTL = (code) => SUPPORTED_LANGUAGES[code]?.rtl || false\<close> and
  \<^verbatim>\<open>getLanguageInfo = (code) => SUPPORTED_LANGUAGES[code] || SUPPORTED_LANGUAGES.en\<close>;
  of the latter only the field \<^verbatim>\<open>rtl\<close> is ever read, and an inherited function has none.
\<close>

definition isRTL :: "string option \<Rightarrow> bool" where
  "isRTL c = (case registry_get (code_string c) of Info info \<Rightarrow> rtl info | _ \<Rightarrow> False)"

definition getLanguageInfo :: "string option \<Rightarrow> registry_value" where
  "getLanguageInfo c =
     (case registry_get (code_string c) of
        Absent \<Rightarrow> registry_get ''en''
      | v \<Rightarrow> v)"

definition languageInfo_rtl :: "registry_value \<Rightarrow> bool" where
  "languageInfo_rtl v = (case v of Info info \<Rightarrow> rtl info | _ \<Rightarrow> False)"

subsection \<open>State\<close>

text \<open>
  The host: what \<^verbatim>\<open>fetch\<close> followed by \<^verbatim>\<open>response.json()\<close> gives for a URL (the exception
  when the request fails, the status is not ok or the body does not parse), the clock
  \<^verbatim>\<open>Date.now()\<close>, the HTML parser, and the updates that \<^verbatim>\<open>updateNavigation\<close>,
  \<^verbatim>\<open>updateForms\<close> and \<^verbatim>\<open>updateMetaTags\<close> make to fixed elements of the site, which they find
  by CSS selectors; matching selectors is the host's business. During one call the clock
  stands still.
\<close>

record host =
  fetch_json :: "string \<Rightarrow> exn + tree"
  now :: int
  siteUpdates :: "tree \<Rightarrow> string option \<Rightarrow> node list \<Rightarrow> node list"

datatype event =
    Ready "string option"
  | LanguageChanged "string option" string
  | ErrorEvent exn

text \<open>
  The engine object, together with the browser state it reads and writes: the page, the
  requests sent (latest last), the events emitted, and the three places where the
  preference is kept.
\<close>

record engine =
  currentLanguage :: "string option"
  previousLanguage :: "string option"
  translationsMap :: "string \<Rightarrow> tree option"
  cache :: "string \<Rightarrow> (tree \<times> int) option"
  isInitialized :: bool
  cacheHitRate :: nat
  enginePage :: page
  requests :: "string list"
  emitted :: "event list"
  localStorage :: storage
  cookieJar :: "(string \<times> string) list"
  urlLang :: "string option"

definition emit :: "event \<Rightarrow> engine \<Rightarrow> engine" where
  "emit ev st = st\<lparr>emitted := emitted st @ [ev]\<rparr>"

definition handleError :: "exn \<Rightarrow> engine \<Rightarrow> engine" where
  "handleError error st = emit (ErrorEvent error) st"

subsection \<open>\<open>loadLanguage\<close>\<close>

text \<open>
  \<^verbatim>\<open>
  async loadLanguage(languageCode) {
    try {
      if (this.cache.has(languageCode)) {
        const cached = this.cache.get(languageCode);
        if (Date.now() - cached.timestamp < PERFORMANCE_SETTINGS.cache.expiry) {
          this.translations.set(languageCode, cached.data);
          this.performanceMetrics.cacheHitRate++;
          return cached.data;
        }
      }
      const response = await fetch(`/localization/languages/${languageCode}.json`);
      if (!response.ok) { throw new Error(`Failed to load language: ${languageCode}`); }
      const translations = await response.json();
      this.cache.set(languageCode, { data: translations, timestamp: Date.now() });
      this.translations.set(languageCode, translations);
      return translations;
    } catch (error) {
      if (languageCode !== LOCALIZATION_SETTINGS.language.fallbackLanguage) {
        return this.loadLanguage(LOCALIZATION_SETTINGS.language.fallbackLanguage);
      }
      throw error;
    }
  }
  \<close>
\<close>

definition language_url :: "string \<Rightarrow> string" where
  "language_url languageCode = ''/localization/languages/'' @ languageCode @ ''.json''"

definition cached_data :: "host \<Rightarrow> engine \<Rightarrow> string \<Rightarrow> tree option" where
  "cached_data h st languageCode =
     (case cache st languageCode of
        None \<Rightarrow> None
      | Some (data, timestamp) \<Rightarrow>
          if now h - timestamp < cacheExpiry then Some data else None)"

function loadLanguage :: "host \<Rightarrow> string \<Rightarrow> engine \<Rightarrow> (exn + tree) \<times> engine" where
  "loadLanguage h languageCode st =
     (case cached_data h st languageCode of
        Some data \<Rightarrow>
          (Inr data, st\<lparr>translationsMap := (translationsMap st)(languageCode \<mapsto> data),
                        cacheHitRate := cacheHitRate st + 1\<rparr>)
      | None \<Rightarrow>
          (case fetch_json h (language_url languageCode) of
             Inr data \<Rightarrow>
               (Inr data,
                st\<lparr>requests := requests st @ [language_url languageCode],
                   cache := (cache st)(languageCode \<mapsto> (data, now h)),
                   translationsMap := (translationsMap st)(languageCode \<mapsto> data)\<rparr>)
           | Inl error \<Rightarrow>
               if languageCode \<noteq> fallbackLanguage then
                 loadLanguage h fallbackLanguage
                   (st\<lparr>requests := requests st @ [language_url languageCode]\<rparr>)
               else
                 (Inl error, st\<lparr>requests := requests st @ [language_url languageCode]\<rparr>)))"
  by pat_completeness auto
termination
  by (relation "measure (\<lambda>(h, languageCode, st). if languageCode = fallbackLanguage then 0 else 1)")
     auto

subsection \<open>Updating the page\<close>

text \<open>
  \<^verbatim>\<open>
  updateHTMLAttributes() {
    document.documentElement.lang = this.currentLanguage;
    if (isRTL(this.currentLanguage)) {
      document.documentElement.dir = 'rtl';
      document.documentElement.classList.add('rtl');
      document.body.classList.add('rtl');
    } else {
      document.documentElement.dir = 'ltr';
      document.documentElement.classList.remove('rtl');
      document.body.classList.remove('rtl');
    }
    document.documentElement.classList.add(`lang-${this.currentLanguage}`);
    if (this.previousLanguage) {
      document.documentElement.classList.remove(`lang-${this.previousLanguage}`);
    }
  }
  \<close>
\<close>

definition updateHTMLAttributes :: "engine \<Rightarrow> engine" where
  "updateHTMLAttributes st =
     (let p = enginePage st;
          p1 = p\<lparr>htmlLang := Some (code_string (currentLanguage st))\<rparr>;
          p2 = (if isRTL (currentLanguage st) then
                  p1\<lparr>htmlDir := Some ''rtl'',
                     htmlClasses := classList_add ''rtl'' (htmlClasses p1),
                     bodyClasses := classList_add ''rtl'' (bodyClasses p1)\<rparr>
                else
                  p1\<lparr>htmlDir := Some ''ltr'',
                     htmlClasses := classList_remove ''rtl'' (htmlClasses p1),
                     bodyClasses := classList_remove ''rtl'' (bodyClasses p1)\<rparr>);
          p3 = p2\<lparr>htmlClasses :=
                    classList_add (''lang-'' @ code_string (currentLanguage st)) (htmlClasses p2)\<rparr>;
          p4 = (case previousLanguage st of
                  None \<Rightarrow> p3
                | Some prev \<Rightarrow>
                    if prev = [] then p3
                    else p3\<lparr>htmlClasses := classList_remove (''lang-'' @ prev) (htmlClasses p3)\<rparr>)
      in st\<lparr>enginePage := p4\<rparr>)"

text \<open>
  The callback of \<open>updateContentWithDataAttributes\<close>:
  \<^verbatim>\<open>
  const key = element.getAttribute('data-i18n');
  const translation = this.getTranslation(key, translations);
  if (translation) {
    if (element.tagName === 'INPUT' || element.tagName === 'TEXTAREA') {
      if (element.hasAttribute('placeholder')) { element.placeholder = translation; }
    } else {
      element.textContent = translation;
    }
  }
  \<close>
\<close>

definition contentCallback :: "tree option \<Rightarrow> tree \<Rightarrow> element \<Rightarrow> effect" where
  "contentCallback current translations e =
     (case getAttribute e ''data-i18n'' of
        None \<Rightarrow> Unchanged
      | Some key \<Rightarrow>
          (let translation = LE_getTranslation current key (Some translations) in
           if truthy translation then
             if tagName e = ''INPUT'' \<or> tagName e = ''TEXTAREA'' then
               if hasAttribute e ''placeholder'' then
                 (case set_placeholder e translation of
                    None \<Rightarrow> NotModelled
                  | Some e' \<Rightarrow> Updated e')
               else Unchanged
             else
               (case js_to_string translation of
                  None \<Rightarrow> NotModelled
                | Some s \<Rightarrow> Children (textContent s))
           else Unchanged))"

definition updateContentWithDataAttributes ::
    "tree option \<Rightarrow> tree \<Rightarrow> node list \<Rightarrow> node list run" where
  "updateContentWithDataAttributes current translations document =
     forEach_list (contentCallback current translations) document"


text \<open>
  \<^verbatim>\<open>
  async updatePage() {
    try {
      const translations = this.translations.get(this.currentLanguage);
      if (!translations) { throw new Error('No translations available for current language'); }
      this.updateHTMLAttributes();
      this.updateContentWithDataAttributes(translations);
      this.updateNavigation(translations);
      this.updateForms(translations);
      this.updateMetaTags();
    } catch (error) { this.handleError(error); }
  }
  \<close>
  The result is \<open>None\<close> when the update leaves the model.
\<close>

definition current_translations :: "engine \<Rightarrow> tree option" where
  "current_translations st =
     (case currentLanguage st of None \<Rightarrow> None | Some c \<Rightarrow> translationsMap st c)"

definition updatePage :: "host \<Rightarrow> engine \<Rightarrow> engine option" where
  "updatePage h st =
     (case current_translations st of
        None \<Rightarrow>
          Some (handleError (Error ''No translations available for current language'') st)
      | Some t \<Rightarrow>
          if \<not> truthy (of_tree t) then
            Some (handleError (Error ''No translations available for current language'') st)
          else
            (let st1 = updateHTMLAttributes st in
             case updateContentWithDataAttributes (Some t) t (content (enginePage st1)) of
               Normal d \<Rightarrow>
                 Some (st1\<lparr>enginePage :=
                   (enginePage st1)\<lparr>content := siteUpdates h t (currentLanguage st1) d\<rparr>\<rparr>)
             | Abrupt x d \<Rightarrow>
                 Some (handleError x (st1\<lparr>enginePage := (enginePage st1)\<lparr>content := d\<rparr>\<rparr>))
             | Beyond \<Rightarrow> None))"

text \<open>
  \<open>updateRTL\<close> adds or removes the class \<^verbatim>\<open>rtl\<close> on \<^verbatim>\<open>html\<close> and \<^verbatim>\<open>body\<close> according to
  \<^verbatim>\<open>getLanguageInfo(this.currentLanguage).rtl\<close> (and sets two inline styles of the mobile
  menu).
\<close>

definition updateRTL :: "engine \<Rightarrow> engine" where
  "updateRTL st =
     (let p = enginePage st in
      if languageInfo_rtl (getLanguageInfo (currentLanguage st)) then
        st\<lparr>enginePage := p\<lparr>htmlClasses := classList_add ''rtl'' (htmlClasses p),
                             bodyClasses := classList_add ''rtl'' (bodyClasses p)\<rparr>\<rparr>
      else
        st\<lparr>enginePage := p\<lparr>htmlClasses := classList_remove ''rtl'' (htmlClasses p),
                             bodyClasses := classList_remove ''rtl'' (bodyClasses p)\<rparr>\<rparr>)"

subsection \<open>The stored preference\<close>

text \<open>
  \<^verbatim>\<open>document.cookie\<close> reads the cookies as \<^verbatim>\<open>name=value\<close> pairs joined by \<^verbatim>\<open>"; "\<close>;
  assigning \<^verbatim>\<open>name=value; ...\<close> to it replaces the cookie of that name or adds one.
\<close>

fun document_cookie :: "(string \<times> string) list \<Rightarrow> string" where
  "document_cookie [] = []"
| "document_cookie [(n, v)] = n @ ''='' @ v"
| "document_cookie ((n, v) # c # cs) = n @ ''='' @ v @ ''; '' @ document_cookie (c # cs)"

definition set_cookie :: "string \<Rightarrow> string \<Rightarrow> (string \<times> string) list \<Rightarrow> (string \<times> string) list" where
  "set_cookie n v jar =
     (if n \<in> fst ` set jar then map (\<lambda>(n', v'). if n' = n then (n', v) else (n', v')) jar
      else jar @ [(n, v)])"

text \<open>
  \<^verbatim>\<open>
  saveLanguage(languageCode) {
    try {
      localStorage.setItem(LOCALIZATION_SETTINGS.language.localStorageKey, languageCode);
      document.cookie = `${cookieName}=${languageCode}; expires=...; path=/`;
      url.searchParams.set(LOCALIZATION_SETTINGS.language.urlParameter, languageCode);
      window.history.replaceState({}, '', url);
    } catch (error) { console.error(...); }
  }
  \<close>
\<close>

definition saveLanguage :: "string \<Rightarrow> engine \<Rightarrow> engine" where
  "saveLanguage languageCode st =
     (case setItem (localStorage st) localStorageKey languageCode of
        Inl error \<Rightarrow> st
      | Inr ls \<Rightarrow>
          st\<lparr>localStorage := ls,
             cookieJar := set_cookie cookieName languageCode (cookieJar st),
             urlLang := Some languageCode\<rparr>)"

text \<open>\<^verbatim>\<open>s.trim()\<close>, for the white space that fits in one \<^typ>\<open>char\<close>.\<close>

definition is_space :: "char \<Rightarrow> bool" where
  "is_space ch = ((of_char ch :: nat) \<in> {9, 10, 11, 12, 13, 32, 160})"

definition trim :: "string \<Rightarrow> string" where
  "trim s = rev (dropWhile is_space (rev (dropWhile is_space s)))"

text \<open>
  \<^verbatim>\<open>
  for (const cookie of cookies) {
    const [name, value] = cookie.trim().split('=');
    if (name === LOCALIZATION_SETTINGS.language.cookieName && SUPPORTED_LANGUAGES[value]) {
      return value;
    }
  }
  \<close>
  Without a \<^verbatim>\<open>=\<close> in the cookie, \<^verbatim>\<open>value\<close> is \<^verbatim>\<open>undefined\<close>, and the registry has no
  property of that name.
\<close>

fun cookie_language :: "string list \<Rightarrow> string option" where
  "cookie_language [] = None"
| "cookie_language (cookie # cookies) =
     (case split_on CHR ''='' (trim cookie) of
        name # value # rest \<Rightarrow>
          if name = cookieName \<and> registry_truthy value then Some value
          else cookie_language cookies
      | _ \<Rightarrow> cookie_language cookies)"

text \<open>
  \<^verbatim>\<open>
  getSavedLanguage() {
    try {
      const saved = localStorage.getItem(LOCALIZATION_SETTINGS.language.localStorageKey);
      if (saved && SUPPORTED_LANGUAGES[saved]) { return saved; }
      const cookies = document.cookie.split(';');
      for (const cookie of cookies) { ... }
      const urlParams = new URLSearchParams(window.location.search);
      const urlLang = urlParams.get(LOCALIZATION_SETTINGS.language.urlParameter);
      if (urlLang && SUPPORTED_LANGUAGES[urlLang]) { return urlLang; }
      return null;
    } catch (error) { return null; }
  }
  \<close>
  \<open>urlLang\<close> is what \<^verbatim>\<open>urlParams.get\<close> returns.
\<close>

definition candidate_ok :: "string option \<Rightarrow> bool" where
  "candidate_ok c = (case c of None \<Rightarrow> False | Some s \<Rightarrow> s \<noteq> [] \<and> registry_truthy s)"

definition getSavedLanguage :: "engine \<Rightarrow> string option" where
  "getSavedLanguage st =
     (case getItem (localStorage st) localStorageKey of
        Inl error \<Rightarrow> None
      | Inr saved \<Rightarrow>
          if candidate_ok saved then saved
          else
            (case cookie_language (split_on CHR '';'' (document_cookie (cookieJar st))) of
               Some value \<Rightarrow> Some value
             | None \<Rightarrow> if candidate_ok (urlLang st) then urlLang st else None))"

subsection \<open>\<open>setLanguage\<close> and \<open>init\<close>\<close>

text \<open>
  \<^verbatim>\<open>
  async setLanguage(languageCode) {
    try {
      if (!SUPPORTED_LANGUAGES[languageCode]) {
        throw new Error(`Unsupported language: ${languageCode}`);
      }
      this.previousLanguage = this.currentLanguage;
      this.currentLanguage = languageCode;
      if (!this.translations.has(languageCode)) { await this.loadLanguage(languageCode); }
      await this.updatePage();
      this.updateRTL();
      this.saveLanguage(languageCode);
      this.emit('languageChanged', { from: this.previousLanguage, to: languageCode, ... });
    } catch (error) {
      this.handleError(error);
      this.currentLanguage = this.previousLanguage;
    }
  }
  \<close>
\<close>

definition setLanguage_catch :: "exn \<Rightarrow> engine \<Rightarrow> engine" where
  "setLanguage_catch error st =
     (let st1 = handleError error st in st1\<lparr>currentLanguage := previousLanguage st1\<rparr>)"

definition setLanguage :: "host \<Rightarrow> string \<Rightarrow> engine \<Rightarrow> engine option" where
  "setLanguage h languageCode st =
     (if \<not> registry_truthy languageCode then
        Some (setLanguage_catch (Error (''Unsupported language: '' @ languageCode)) st)
      else
        (let st1 = st\<lparr>previousLanguage := currentLanguage st,
                       currentLanguage := Some languageCode\<rparr>;
             loaded = (if translationsMap st1 languageCode = None
                       then (case loadLanguage h languageCode st1 of
                               (Inl error, st2) \<Rightarrow> Inl (error, st2)
                             | (Inr data, st2) \<Rightarrow> Inr st2)
                       else Inr st1)
         in case loaded of
              Inl (error, st2) \<Rightarrow> Some (setLanguage_catch error st2)
            | Inr st2 \<Rightarrow>
                (case updatePage h st2 of
                   None \<Rightarrow> None
                 | Some st3 \<Rightarrow>
                     Some (emit (LanguageChanged (previousLanguage st3) languageCode)
                            (saveLanguage languageCode (updateRTL st3))))))"

text \<open>
  \<^verbatim>\<open>
  async init() {
    try {
      await this.loadLanguage(this.currentLanguage);
      const savedLanguage = this.getSavedLanguage();
      if (savedLanguage && savedLanguage !== this.currentLanguage) {
        await this.setLanguage(savedLanguage);
      }
      if (PERFORMANCE_SETTINGS.loading.lazy) {
        this.preloadLanguages(PERFORMANCE_SETTINGS.loading.preload);
      }
      this.setupEventListeners();
      this.initializeRTL();
      this.isInitialized = true;
      this.emit('ready', { language: this.currentLanguage });
    } catch (error) { this.handleError(error); }
  }
  \<close>
  \<open>preloadLanguages\<close> is not awaited; its loads are taken in the order of the list, at the
  point of the call, and their failures are dropped (\<^verbatim>\<open>Promise.allSettled\<close>).
  \<open>init\<close> runs on the engine as its constructor leaves it (\<open>new_engine\<close>), where the
  current language is the default language.
\<close>

fun preloadLanguages :: "host \<Rightarrow> string list \<Rightarrow> engine \<Rightarrow> engine" where
  "preloadLanguages h [] st = st"
| "preloadLanguages h (c # cs) st = preloadLanguages h cs (snd (loadLanguage h c st))"

definition initializeRTL :: "engine \<Rightarrow> engine" where
  "initializeRTL st = (if isRTL (currentLanguage st) then updateRTL st else st)"

definition new_engine :: "page \<Rightarrow> storage \<Rightarrow> (string \<times> string) list \<Rightarrow> string option \<Rightarrow> engine" where
  "new_engine p ls jar url =
     \<lparr>currentLanguage = Some defaultLanguage, previousLanguage = None,
      translationsMap = Map.empty, cache = Map.empty, isInitialized = False, cacheHitRate = 0,
      enginePage = p, requests = [], emitted = [],
      localStorage = ls, cookieJar = jar, urlLang = url\<rparr>"

definition init :: "host \<Rightarrow> engine \<Rightarrow> engine option" where
  "init h st =
     (case loadLanguage h (code_string (currentLanguage st)) st of
        (Inl error, st1) \<Rightarrow> Some (handleError error st1)
      | (Inr data, st1) \<Rightarrow>
          (let savedLanguage = getSavedLanguage st1;
               switched =
                 (case savedLanguage of
                    None \<Rightarrow> Some st1
                  | Some saved \<Rightarrow>
                      if saved \<noteq> [] \<and> savedLanguage \<noteq> currentLanguage st1
                      then setLanguage h saved st1
                      else Some st1)
           in case switched of
                None \<Rightarrow> None
              | Some st2 \<Rightarrow>
                  (let st3 = initializeRTL (preloadLanguages h preloadLanguageCodes st2);
                       st4 = st3\<lparr>isInitialized := True\<rparr>
                   in Some (emit (Ready (currentLanguage st4)) st4))))"

section \<open>A small site\<close>

text \<open>
  Concrete inputs for the evaluations below: an English tree, a host on which only
  \<^verbatim>\<open>en.json\<close> can be fetched, a host on which nothing can, and a page with one marked
  heading.
\<close>

definition example_tree :: tree where
  "example_tree = Node [(''hero'', Node [(''title'', Leaf ''Welcome'')])]"

definition example_host :: host where
  "example_host =
     \<lparr>fetch_json = (\<lambda>url. if url = ''/localization/languages/en.json'' then Inr example_tree
                           else Inl (Error ''Failed to load language'')),
      now = 0,
      siteUpdates = (\<lambda>t c d. d)\<rparr>"

definition offline_host :: host where
  "offline_host =
     \<lparr>fetch_json = (\<lambda>url. Inl (TypeError ''Failed to fetch'')),
      now = 0,
      siteUpdates = (\<lambda>t c d. d)\<rparr>"

definition example_heading :: node where
  "example_heading =
     Element \<lparr>tagName = ''H1'', inputType = [],
              attributes = [''data-i18n'' \<mapsto> ''hero.title''], properties = Map.empty\<rparr>
       [TextNode ''Hello'']"

definition example_page :: page where
  "example_page =
     \<lparr>htmlLang = None, htmlDir = None, htmlClasses = [], bodyClasses = [],
      toggleButton = None, content = [example_heading]\<rparr>"

text \<open>The engine at startup, with nothing stored, and with \<^verbatim>\<open>?lang=constructor\<close> in the URL.\<close>

definition example_engine :: engine where
  "example_engine = new_engine example_page (Inr Map.empty) [] None"

definition crafted_url_engine :: engine where
  "crafted_url_engine = new_engine example_page (Inr Map.empty) [] (Some ''constructor'')"

text \<open>
  A stand-in for the HTML parser that knows one fragment, \<^verbatim>\<open><b>Hi</b>\<close>, and a tree that
  holds that fragment.
\<close>

definition bold_hi :: "node list" where
  "bold_hi =
     [Element \<lparr>tagName = ''B'', inputType = [], attributes = Map.empty, properties = Map.empty\<rparr>
        [TextNode ''Hi'']]"

definition example_parser :: parser where
  "example_parser context markup = (if markup = ''<b>Hi</b>'' then bold_hi else [])"

definition markup_tree :: tree where
  "markup_tree =
     Node [(''hero'', Node [(''title'', Leaf ''<b>Hi</b>''), (''lead'', Leaf ''Welcome'')])]"

definition marked :: "string \<Rightarrow> string \<Rightarrow> string \<Rightarrow> element" where
  "marked tag marker key =
     \<lparr>tagName = tag, inputType = [], attributes = [marker \<mapsto> key], properties = Map.empty\<rparr>"

text \<open>
  A page on which a heading holds a \<^verbatim>\<open>span\<close> whose key names a subtree, followed by an input
  with a placeholder marker; and the same page after the heading has been translated.
\<close>

definition nested_page :: "node list" where
  "nested_page =
     [Element (marked ''H1'' ''data-i18n'' ''hero.title'')
        [Element (marked ''SPAN'' ''data-i18n'' ''hero'') [TextNode ''Hello'']],
      Element (marked ''INPUT'' ''data-i18n-placeholder'' ''hero.title'') []]"

definition nested_page_1 :: "node list" where
  "nested_page_1 =
     [Element (marked ''H1'' ''data-i18n'' ''hero.title'') [TextNode ''Welcome''],
      Element (marked ''INPUT'' ''data-i18n-placeholder'' ''hero.title'') []]"

definition nested_page_2 :: "node list" where
  "nested_page_2 =
     [Element (marked ''H1'' ''data-i18n'' ''hero.title'') [TextNode ''Welcome''],
      Element ((marked ''INPUT'' ''data-i18n-placeholder'' ''hero.title'')
                 \<lparr>attributes := [''data-i18n-placeholder'' \<mapsto> ''hero.title'',
                                 ''placeholder'' \<mapsto> ''Welcome'']\<rparr>) []]"















section \<open>Properties of the key resolvers\<close>

lemma split_on_nonempty: "split_on c s \<noteq> []"
  by (induction s) (auto split: list.splits)

lemma of_tree_defined: "of_tree t \<noteq> JUndefined"
  by (cases t) auto

lemma translations_for_own:
  "map_of translations language = Some t \<Longrightarrow> translations_for translations language = of_tree t"
  by (simp add: translations_for_def)

lemma SLT_walk_never_throws: "SLT_walk v ks \<noteq> Throws"
proof (induction ks arbitrary: v)
  case Nil
  show ?case by simp
next
  case (Cons k ks)
  show ?case
  proof (cases "truthy v")
    case False
    then show ?thesis by simp
  next
    case True
    have "get_property v k \<noteq> Throws"
    proof (cases v)
      case (JBuiltin b)
      then show ?thesis by (cases b) auto
    qed (use True in \<open>auto split: option.splits\<close>)
    with True Cons.IH show ?thesis
      by (cases "get_property v k") auto
  qed
qed

lemma has_property_read:
  assumes "typeof_object v" and "truthy v" and "has_property v k"
  shows "\<exists>w. get_property v k = Got w \<and> w \<noteq> JUndefined"
proof (cases v)
  case (JObj ps)
  with assms show ?thesis
    by (cases "map_of ps k"; cases "the (map_of ps k)")
       (auto simp: inherited_by_object_def object_prototype_get_def)
next
  case (JBuiltin b)
  with assms show ?thesis
    by (cases b) (auto simp: inherited_by_object_def object_prototype_get_def)
qed (use assms in auto)

lemma LE_hit_SLT: "LE_walk v ks \<noteq> JNull \<Longrightarrow> SLT_walk v ks = Got (LE_walk v ks)"
proof (induction ks arbitrary: v)
  case Nil
  show ?case by simp
next
  case (Cons k ks)
  from Cons.prems have g: "truthy v" "typeof_object v" "has_property v k"
    by (auto split: if_splits)
  then obtain w where w: "get_property v k = Got w" "w \<noteq> JUndefined"
    using has_property_read by blast
  with g Cons.prems have "LE_walk w ks \<noteq> JNull" by simp
  then have "SLT_walk w ks = Got (LE_walk w ks)" by (rule Cons.IH)
  with g w show ?case by simp
qed

lemma SLT_walk_found:
  "lookup_path t ks = Some u \<Longrightarrow> SLT_walk (of_tree t) ks = Got (of_tree u)"
proof (induction t ks rule: lookup_path.induct)
  case (3 ps k ks)
  then obtain t' where t': "map_of ps k = Some t'" "lookup_path t' ks = Some u"
    by (auto split: option.splits)
  with 3 have "SLT_walk (of_tree t') ks = Got (of_tree u)" by simp
  with t' of_tree_defined [of t'] show ?case by simp
qed auto

lemma LE_walk_found: "lookup_path t ks = Some u \<Longrightarrow> LE_walk (of_tree t) ks = of_tree u"
proof (induction t ks rule: lookup_path.induct)
  case (3 ps k ks)
  then obtain t' where t': "map_of ps k = Some t'" "lookup_path t' ks = Some u"
    by (auto split: option.splits)
  with 3 have "LE_walk (of_tree t') ks = of_tree u" by simp
  with t' show ?case by simp
qed auto

lemma LE_walk_absent:
  "lookup_path t ks = None \<Longrightarrow> \<forall>k \<in> set ks. \<not> inherited_by_object k \<Longrightarrow>
   LE_walk (of_tree t) ks = JNull"
proof (induction t ks rule: lookup_path.induct)
  case (3 ps k ks)
  show ?case
  proof (cases "map_of ps k")
    case None
    with 3 show ?thesis by simp
  next
    case (Some t')
    with 3 have "LE_walk (of_tree t') ks = JNull" by simp
    with Some show ?thesis by simp
  qed
qed auto

lemma walks_agree:
  "\<forall>n < length ks. \<forall>s. s \<noteq> [] \<longrightarrow> lookup_path t (take n ks) \<noteq> Some (Leaf s) \<Longrightarrow>
   \<forall>k \<in> set ks. \<not> inherited_by_object k \<Longrightarrow>
   SLT_walk (of_tree t) ks = Got (LE_walk (of_tree t) ks)"
proof (induction ks arbitrary: t)
  case Nil
  show ?case by simp
next
  case (Cons k ks)
  show ?case
  proof (cases t)
    case (Leaf s)
    from Cons.prems(1)
    have "\<forall>s. s \<noteq> [] \<longrightarrow> lookup_path t (take 0 (k # ks)) \<noteq> Some (Leaf s)"
      by blast
    with Leaf have "s = []" by auto
    with Leaf show ?thesis by simp
  next
    case (Node ps)
    show ?thesis
    proof (cases "map_of ps k")
      case None
      with Node Cons.prems(2) show ?thesis
        by (auto simp: inherited_by_object_def object_prototype_get_def)
    next
      case (Some t')
      have "\<forall>n < length ks. \<forall>s. s \<noteq> [] \<longrightarrow> lookup_path t' (take n ks) \<noteq> Some (Leaf s)"
      proof (intro allI impI)
        fix n s assume "n < length ks" and "s \<noteq> ([]::string)"
        with Cons.prems(1) have "lookup_path t (take (Suc n) (k # ks)) \<noteq> Some (Leaf s)"
          by (metis Suc_less_eq length_Cons)
        with Node Some show "lookup_path t' (take n ks) \<noteq> Some (Leaf s)" by simp
      qed
      with Cons have "SLT_walk (of_tree t') ks = Got (LE_walk (of_tree t') ks)" by simp
      with Node Some of_tree_defined [of t'] show ?thesis by simp
    qed
  qed
qed

lemma lookup_path_Some_truthy:
  "lookup_path t ks = Some u \<Longrightarrow> ks \<noteq> [] \<Longrightarrow> truthy (of_tree t)"
  by (cases t; cases ks) auto

lemmas resolver_eval =
  SLT_getTranslation_def LE_getTranslation_def translations_for_def canonical_index_def
  is_digit_def inherited_by_string_def inherited_by_object_def object_prototype_get_def
  string_prototype_methods_def object_prototype_methods_def

lemma SLT_walk_returns_aux:
  assumes "\<forall>k \<in> set ks. \<not> inherited_by_string k \<and> k \<noteq> ''length''"
    and "v = JUndefined \<or> v = JNull \<or> (\<exists>s. v = JStr s) \<or> (\<exists>ps. v = JObj ps)"
  shows "\<exists>w. SLT_walk v ks = Got w
      \<and> (w = JUndefined \<or> w = JNull \<or> (\<exists>s. w = JStr s) \<or> (\<exists>ps. w = JObj ps))
      \<and> (ks \<noteq> [] \<longrightarrow> w \<noteq> JUndefined)"
  using assms
proof (induction ks arbitrary: v)
  case Nil
  then show ?case by auto
next
  case (Cons k ks)
  have k: "\<not> inherited_by_string k" "k \<noteq> ''length''" "\<not> inherited_by_object k"
    "k \<noteq> ''__proto__''" "k \<notin> set object_prototype_methods"
    using Cons.prems(1) by (auto simp: inherited_by_string_def inherited_by_object_def)
  have ks: "\<forall>k \<in> set ks. \<not> inherited_by_string k \<and> k \<noteq> ''length''"
    using Cons.prems(1) by simp
  show ?case
  proof (cases "truthy v")
    case False
    then show ?thesis by simp
  next
    case True
    with Cons.prems(2) consider s where "v = JStr s" | ps where "v = JObj ps" by auto
    then have "\<exists>u. get_property v k = Got u
        \<and> (u = JUndefined \<or> u = JNull \<or> (\<exists>s. u = JStr s) \<or> (\<exists>ps. u = JObj ps))"
    proof cases
      case 1
      with k show ?thesis by (cases "canonical_index k") auto
    next
      case 2
      show ?thesis
      proof (cases "map_of ps k")
        case None
        with 2 k show ?thesis by (simp add: object_prototype_get_def)
      next
        case (Some t)
        with 2 show ?thesis by (cases t) simp_all
      qed
    qed
    then obtain u where u: "get_property v k = Got u"
      "u = JUndefined \<or> u = JNull \<or> (\<exists>s. u = JStr s) \<or> (\<exists>ps. u = JObj ps)"
      by blast
    show ?thesis
    proof (cases "u = JUndefined")
      case True
      with u \<open>truthy v\<close> show ?thesis by simp
    next
      case False
      from Cons.IH [OF ks u(2)] obtain w where w: "SLT_walk u ks = Got w"
        "w = JUndefined \<or> w = JNull \<or> (\<exists>s. w = JStr s) \<or> (\<exists>ps. w = JObj ps)"
        "ks \<noteq> [] \<longrightarrow> w \<noteq> JUndefined"
        by blast
      have "w \<noteq> JUndefined"
        using w(1,3) False by (cases ks) auto
      with w u False \<open>truthy v\<close> show ?thesis by simp
    qed
  qed
qed

lemma SLT_getTranslation_returns:
  assumes "\<not> inherited_by_object language"
    and "\<forall>k \<in> set (split_on CHR ''.'' key). \<not> inherited_by_string k \<and> k \<noteq> ''length''"
  shows "\<exists>w. SLT_getTranslation translations key language = Got w
      \<and> (w = JNull \<or> (\<exists>s. w = JStr s) \<or> (\<exists>ps. w = JObj ps))"
proof -
  let ?v = "translations_for translations language"
  have "?v = JUndefined \<or> ?v = JNull \<or> (\<exists>s. ?v = JStr s) \<or> (\<exists>ps. ?v = JObj ps)"
  proof (cases "map_of translations language")
    case None
    with assms(1) show ?thesis
      by (simp add: translations_for_def inherited_by_object_def object_prototype_get_def)
  next
    case (Some t)
    then show ?thesis by (cases t) (simp_all add: translations_for_def)
  qed
  from SLT_walk_returns_aux [OF assms(2) this] split_on_nonempty [of "CHR ''.''" key]
  show ?thesis by (auto simp: SLT_getTranslation_def)
qed

section \<open>C1: what the key resolvers return\<close>

text \<open>
  C1 says that a resolver returns the leaf string or NOT_FOUND and never an internal
  subtree. Neither resolver checks that the value at the end of the walk is a string: on
  \<^verbatim>\<open>{a: {b: {c: "X"}}}\<close> the key \<^verbatim>\<open>"a.b"\<close> stops at a nested mapping, and both return that
  mapping.
\<close>

theorem C1_counterexample:
  "LE_getTranslation None ''a.b''
     (Some (Node [(''a'', Node [(''b'', Node [(''c'', Leaf ''X'')])])]))
     = JObj [(''c'', Leaf ''X'')]
   \<and> SLT_getTranslation
       [(''en'', Node [(''a'', Node [(''b'', Node [(''c'', Leaf ''X'')])])])] ''a.b'' ''en''
     = Got (JObj [(''c'', Leaf ''X'')])"
  by (simp add: resolver_eval)

text \<open>
  C1, amended. The widget's resolver catches nothing, and a key can lead it to a property
  whose read throws. When neither the language code nor a segment of the key names a
  property inherited from \<^verbatim>\<open>Object.prototype\<close> or \<^verbatim>\<open>String.prototype\<close>, or \<^verbatim>\<open>length\<close>, it
  returns, and what it returns is \<^verbatim>\<open>null\<close>, a string or an internal subtree. When every
  segment of the key is present on the path, both resolvers return what stands at the end
  of the path, which is the leaf string when the path ends at a leaf and the internal
  subtree when it ends at a nested mapping. When the path does not exist and no segment
  names a property inherited from \<^verbatim>\<open>Object.prototype\<close>, the engine's resolver returns
  \<^verbatim>\<open>null\<close>. On \<^verbatim>\<open>"a.b.c"\<close> both return \<^verbatim>\<open>"X"\<close> against \<^verbatim>\<open>{a: {b: {c: "X"}}}\<close> and \<^verbatim>\<open>null\<close>
  against \<^verbatim>\<open>{a: {b: {}}}\<close> and against \<^verbatim>\<open>{a: "scalar"}\<close>.
\<close>

theorem C1_resolver:
  "(\<not> inherited_by_object language
      \<and> (\<forall>k \<in> set (split_on CHR ''.'' key). \<not> inherited_by_string k \<and> k \<noteq> ''length'') \<longrightarrow>
      (\<exists>v. SLT_getTranslation translations key language = Got v
         \<and> (v = JNull \<or> (\<exists>s. v = JStr s) \<or> (\<exists>ps. v = JObj ps))))
   \<and> (lookup_path t (split_on CHR ''.'' key) = Some u \<longrightarrow>
        LE_getTranslation current key (Some t) = of_tree u
        \<and> (map_of translations language = Some t \<longrightarrow>
             SLT_getTranslation translations key language = Got (of_tree u)))
   \<and> (lookup_path t (split_on CHR ''.'' key) = None
        \<and> (\<forall>k \<in> set (split_on CHR ''.'' key). \<not> inherited_by_object k) \<longrightarrow>
        LE_getTranslation None key (Some t) = JNull)
   \<and> LE_getTranslation None ''a.b.c''
        (Some (Node [(''a'', Node [(''b'', Node [(''c'', Leaf ''X'')])])])) = JStr ''X''
   \<and> LE_getTranslation None ''a.b.c'' (Some (Node [(''a'', Node [(''b'', Node [])])])) = JNull
   \<and> LE_getTranslation None ''a.b.c'' (Some (Node [(''a'', Leaf ''scalar'')])) = JNull
   \<and> SLT_getTranslation
        [(''en'', Node [(''a'', Node [(''b'', Node [(''c'', Leaf ''X'')])])])] ''a.b.c'' ''en''
        = Got (JStr ''X'')
   \<and> SLT_getTranslation [(''en'', Node [(''a'', Node [(''b'', Node [])])])] ''a.b.c'' ''en''
        = Got JNull
   \<and> SLT_getTranslation [(''en'', Node [(''a'', Leaf ''scalar'')])] ''a.b.c'' ''en''
        = Got JNull"
proof (intro conjI impI)
  assume "\<not> inherited_by_object language
      \<and> (\<forall>k \<in> set (split_on CHR ''.'' key). \<not> inherited_by_string k \<and> k \<noteq> ''length'')"
  then show "\<exists>v. SLT_getTranslation translations key language = Got v
         \<and> (v = JNull \<or> (\<exists>s. v = JStr s) \<or> (\<exists>ps. v = JObj ps))"
    by (simp add: SLT_getTranslation_returns)
next
  assume p: "lookup_path t (split_on CHR ''.'' key) = Some u"
  then have "truthy (of_tree t)"
    by (rule lookup_path_Some_truthy) (rule split_on_nonempty)
  with p show "LE_getTranslation current key (Some t) = of_tree u"
    by (simp add: LE_getTranslation_def LE_walk_found)
next
  assume "lookup_path t (split_on CHR ''.'' key) = Some u"
    and "map_of translations language = Some t"
  then show "SLT_getTranslation translations key language = Got (of_tree u)"
    by (simp add: SLT_getTranslation_def translations_for_own SLT_walk_found)
next
  assume "lookup_path t (split_on CHR ''.'' key) = None
    \<and> (\<forall>k \<in> set (split_on CHR ''.'' key). \<not> inherited_by_object k)"
  then show "LE_getTranslation None key (Some t) = JNull"
    by (simp add: LE_getTranslation_def LE_walk_absent)
qed (simp_all add: resolver_eval)

text \<open>The amended C1 at the key \<^verbatim>\<open>header.about\<close>, which is present, and \<^verbatim>\<open>footer.about\<close>, which is not.\<close>

theorem C1_resolver_witness:
  "\<not> inherited_by_object ''en''
   \<and> split_on CHR ''.'' ''header.about'' = [''header'', ''about'']
   \<and> \<not> inherited_by_string ''header'' \<and> \<not> inherited_by_string ''about''
   \<and> lookup_path (Node [(''header'', Node [(''about'', Leaf ''About us'')])])
     (split_on CHR ''.'' ''header.about'') = Some (Leaf ''About us'')
   \<and> map_of [(''en'', Node [(''header'', Node [(''about'', Leaf ''About us'')])])] ''en''
     = Some (Node [(''header'', Node [(''about'', Leaf ''About us'')])])
   \<and> LE_getTranslation None ''header.about''
       (Some (Node [(''header'', Node [(''about'', Leaf ''About us'')])])) = JStr ''About us''
   \<and> SLT_getTranslation [(''en'', Node [(''header'', Node [(''about'', Leaf ''About us'')])])]
       ''header.about'' ''en'' = Got (JStr ''About us'')
   \<and> lookup_path (Node [(''header'', Node [(''about'', Leaf ''About us'')])])
       (split_on CHR ''.'' ''footer.about'') = None
   \<and> split_on CHR ''.'' ''footer.about'' = [''footer'', ''about'']
   \<and> \<not> inherited_by_object ''footer'' \<and> \<not> inherited_by_object ''about''
   \<and> LE_getTranslation None ''footer.about''
       (Some (Node [(''header'', Node [(''about'', Leaf ''About us'')])])) = JNull"
proof -
  let ?t = "Node [(''header'', Node [(''about'', Leaf ''About us'')])]"
  have names: "\<not> inherited_by_object ''en''"
    "\<not> inherited_by_string ''header''" "\<not> inherited_by_string ''about''"
    "\<not> inherited_by_object ''footer''" "\<not> inherited_by_object ''about''"
    by (simp_all add: inherited_by_string_def string_prototype_methods_def
        inherited_by_object_def object_prototype_methods_def)
  have keys: "split_on CHR ''.'' ''header.about'' = [''header'', ''about'']"
    "split_on CHR ''.'' ''footer.about'' = [''footer'', ''about'']"
    by simp_all
  have paths: "lookup_path ?t (split_on CHR ''.'' ''header.about'') = Some (Leaf ''About us'')"
    "map_of [(''en'', ?t)] ''en'' = Some ?t"
    "lookup_path ?t (split_on CHR ''.'' ''footer.about'') = None"
    by simp_all
  note present = C1_resolver [of "''en''" "''header.about''" "[(''en'', ?t)]" ?t
      "Leaf ''About us''" None]
  note absent = C1_resolver [of "''en''" "''footer.about''" "[]" ?t "Leaf []" None]
  from present names keys obtain v
    where v: "SLT_getTranslation [(''en'', ?t)] ''header.about'' ''en'' = Got v"
    by auto
  from present paths have hit: "LE_getTranslation None ''header.about'' (Some ?t) = JStr ''About us''"
    "SLT_getTranslation [(''en'', ?t)] ''header.about'' ''en'' = Got (JStr ''About us'')"
    by simp_all
  from absent paths names keys
  have miss: "LE_getTranslation None ''footer.about'' (Some ?t) = JNull"
    by simp
  show ?thesis
    by (intro conjI) (rule names keys paths hit miss)+
qed

section \<open>C9: the two resolvers compared\<close>

text \<open>
  C9 says that the two resolvers return the same result for every tree and key. The
  engine's resolver stops at anything that is not an object; the widget's has no such
  test and reads the next segment from a string as well. On \<^verbatim>\<open>{a: "scalar"}\<close> the key
  \<^verbatim>\<open>"a.0"\<close> gives the character \<^verbatim>\<open>"s"\<close> in the widget and \<^verbatim>\<open>null\<close> in the engine.
\<close>

theorem C9_counterexample:
  "SLT_getTranslation [(''en'', Node [(''a'', Leaf ''scalar'')])] ''a.0'' ''en''
     = Got (JStr ''s'')
   \<and> LE_getTranslation None ''a.0'' (Some (Node [(''a'', Leaf ''scalar'')])) = JNull"
  by (simp add: resolver_eval)

text \<open>
  C9, amended. For a language whose tree is loaded: whenever the engine's resolver returns
  a value other than \<^verbatim>\<open>null\<close>, the widget's resolver returns the same value; and the two
  return the same result, value or \<^verbatim>\<open>null\<close>, for every key that does not continue past a
  non-empty string leaf and has no segment naming a property inherited from
  \<^verbatim>\<open>Object.prototype\<close>.
\<close>

theorem C9_resolvers_agree:
  assumes "map_of translations language = Some t"
  shows
  "(LE_getTranslation None key (Some t) \<noteq> JNull \<longrightarrow>
      SLT_getTranslation translations key language = Got (LE_getTranslation None key (Some t)))
   \<and> ((\<forall>n < length (split_on CHR ''.'' key). \<forall>s. s \<noteq> [] \<longrightarrow>
          lookup_path t (take n (split_on CHR ''.'' key)) \<noteq> Some (Leaf s))
        \<and> (\<forall>k \<in> set (split_on CHR ''.'' key). \<not> inherited_by_object k) \<longrightarrow>
      SLT_getTranslation translations key language = Got (LE_getTranslation None key (Some t)))"
proof (intro conjI impI)
  assume "LE_getTranslation None key (Some t) \<noteq> JNull"
  then have "truthy (of_tree t)" and "LE_walk (of_tree t) (split_on CHR ''.'' key) \<noteq> JNull"
    by (auto simp: LE_getTranslation_def split: if_splits)
  then show "SLT_getTranslation translations key language
      = Got (LE_getTranslation None key (Some t))"
    using assms by (simp add: SLT_getTranslation_def LE_getTranslation_def
        translations_for_own LE_hit_SLT)
next
  assume h: "(\<forall>n < length (split_on CHR ''.'' key). \<forall>s. s \<noteq> [] \<longrightarrow>
          lookup_path t (take n (split_on CHR ''.'' key)) \<noteq> Some (Leaf s))
        \<and> (\<forall>k \<in> set (split_on CHR ''.'' key). \<not> inherited_by_object k)"
  then have w: "SLT_walk (of_tree t) (split_on CHR ''.'' key)
      = Got (LE_walk (of_tree t) (split_on CHR ''.'' key))"
    using walks_agree by blast
  show "SLT_getTranslation translations key language
      = Got (LE_getTranslation None key (Some t))"
  proof (cases "truthy (of_tree t)")
    case True
    with w assms show ?thesis
      by (simp add: SLT_getTranslation_def LE_getTranslation_def translations_for_own)
  next
    case False
    obtain k ks where ks: "split_on CHR ''.'' key = k # ks"
      using split_on_nonempty by (cases "split_on CHR ''.'' key") auto
    with False assms show ?thesis
      by (simp add: SLT_getTranslation_def LE_getTranslation_def translations_for_own)
  qed
qed

text \<open>The amended C9 at the keys \<^verbatim>\<open>header\<close> (a hit) and \<^verbatim>\<open>header.none\<close> (a miss).\<close>

theorem C9_resolvers_agree_witness:
  "map_of [(''en'', Node [(''header'', Node [(''about'', Leaf ''About us'')])])] ''en''
     = Some (Node [(''header'', Node [(''about'', Leaf ''About us'')])])
   \<and> LE_getTranslation None ''header''
       (Some (Node [(''header'', Node [(''about'', Leaf ''About us'')])])) \<noteq> JNull
   \<and> SLT_getTranslation [(''en'', Node [(''header'', Node [(''about'', Leaf ''About us'')])])]
       ''header'' ''en''
     = Got (LE_getTranslation None ''header''
         (Some (Node [(''header'', Node [(''about'', Leaf ''About us'')])])))
   \<and> split_on CHR ''.'' ''header.none'' = [''header'', ''none'']
   \<and> lookup_path (Node [(''header'', Node [(''about'', Leaf ''About us'')])]) []
     = Some (Node [(''header'', Node [(''about'', Leaf ''About us'')])])
   \<and> lookup_path (Node [(''header'', Node [(''about'', Leaf ''About us'')])]) [''header'']
     = Some (Node [(''about'', Leaf ''About us'')])
   \<and> \<not> inherited_by_object ''header'' \<and> \<not> inherited_by_object ''none''
   \<and> SLT_getTranslation [(''en'', Node [(''header'', Node [(''about'', Leaf ''About us'')])])]
       ''header.none'' ''en''
     = Got (LE_getTranslation None ''header.none''
         (Some (Node [(''header'', Node [(''about'', Leaf ''About us'')])])))"
proof -
  have m: "map_of [(''en'', Node [(''header'', Node [(''about'', Leaf ''About us'')])])] ''en''
     = Some (Node [(''header'', Node [(''about'', Leaf ''About us'')])])"
    by simp
  have p: "\<forall>n < length (split_on CHR ''.'' ''header.none''). \<forall>s. s \<noteq> [] \<longrightarrow>
          lookup_path (Node [(''header'', Node [(''about'', Leaf ''About us'')])])
            (take n (split_on CHR ''.'' ''header.none'')) \<noteq> Some (Leaf s)"
    by (simp add: less_Suc_eq)
  have q: "\<forall>k \<in> set (split_on CHR ''.'' ''header.none''). \<not> inherited_by_object k"
    by (simp add: inherited_by_object_def object_prototype_methods_def)
  have r: "LE_getTranslation None ''header''
       (Some (Node [(''header'', Node [(''about'', Leaf ''About us'')])])) \<noteq> JNull"
    by (simp add: resolver_eval)
  have a: "SLT_getTranslation [(''en'', Node [(''header'', Node [(''about'', Leaf ''About us'')])])]
       ''header'' ''en''
     = Got (LE_getTranslation None ''header''
         (Some (Node [(''header'', Node [(''about'', Leaf ''About us'')])])))"
    using C9_resolvers_agree [OF m, of "''header''"] r by (rule conjunct1 [THEN mp])
  have b: "SLT_getTranslation [(''en'', Node [(''header'', Node [(''about'', Leaf ''About us'')])])]
       ''header.none'' ''en''
     = Got (LE_getTranslation None ''header.none''
         (Some (Node [(''header'', Node [(''about'', Leaf ''About us'')])])))"
    using C9_resolvers_agree [OF m, of "''header.none''"] conjI [OF p q]
    by (rule conjunct2 [THEN mp])
  have e: "split_on CHR ''.'' ''header.none'' = [''header'', ''none'']"
    "lookup_path (Node [(''header'', Node [(''about'', Leaf ''About us'')])]) []
     = Some (Node [(''header'', Node [(''about'', Leaf ''About us'')])])"
    "lookup_path (Node [(''header'', Node [(''about'', Leaf ''About us'')])]) [''header'']
     = Some (Node [(''about'', Leaf ''About us'')])"
    "\<not> inherited_by_object ''header''" "\<not> inherited_by_object ''none''"
    by (simp_all add: inherited_by_object_def object_prototype_methods_def)
  show ?thesis
    by (intro conjI) (rule m r a b e)+
qed

section \<open>C10: the stored preference of the widget\<close>

text \<open>
  C10. \<open>getStoredLanguage\<close> is total and returns \<^verbatim>\<open>"en"\<close> or \<^verbatim>\<open>"ar"\<close>: it returns \<^verbatim>\<open>"ar"\<close>
  exactly when the stored value is the string \<^verbatim>\<open>"ar"\<close>, and \<^verbatim>\<open>"en"\<close> for every other stored
  value, for a missing value, and when access to the storage throws.
\<close>

theorem C10_getStoredLanguage:
  "getStoredLanguage ls \<in> {''en'', ''ar''}
   \<and> (getStoredLanguage ls = ''ar'' \<longleftrightarrow>
        getItem ls ''marln_language_preference'' = Inr (Some ''ar''))
   \<and> (getStoredLanguage ls \<noteq> ''ar'' \<longrightarrow> getStoredLanguage ls = ''en'')
   \<and> (\<forall>e. ls = Inl e \<longrightarrow> getStoredLanguage ls = ''en'')"
  by (cases ls) (simp_all add: getStoredLanguage_def getItem_def)

text \<open>C10 at a storage that holds \<^verbatim>\<open>"ar"\<close>.\<close>

theorem C10_getStoredLanguage_witness:
  "getItem (Inr (\<lambda>k. if k = ''marln_language_preference'' then Some ''ar'' else None))
     ''marln_language_preference'' = Inr (Some ''ar'')
   \<and> getStoredLanguage
       (Inr (\<lambda>k. if k = ''marln_language_preference'' then Some ''ar'' else None)) = ''ar''"
  using C10_getStoredLanguage
      [of "Inr (\<lambda>k. if k = ''marln_language_preference'' then Some ''ar'' else None)"]
  by (simp add: getItem_def)

section \<open>C3, C4, C8: loading and selecting a language in the engine\<close>

text \<open>
  C3 says that when the translations of a requested language cannot be loaded, the tree
  of the fallback language is loaded and applied to the page, and that the engine then
  reflects the fallback code. On the example site \<^verbatim>\<open>ar.json\<close> cannot be fetched. After
  \<open>init\<close> and \<open>setLanguage ''ar''\<close> the current language is \<^verbatim>\<open>"ar"\<close>; \<open>loadLanguage\<close> has
  fallen back and stored the English tree under \<^verbatim>\<open>"en"\<close>, but \<open>setLanguage\<close> drops what it
  returns, so \<open>updatePage\<close> finds no tree for \<^verbatim>\<open>"ar"\<close>, reports an error and rewrites nothing:
  the heading still reads \<^verbatim>\<open>Hello\<close>, and the change to \<^verbatim>\<open>"ar"\<close> is announced. The last
  part of the claim holds: when the fallback language itself cannot be loaded,
  \<open>loadLanguage\<close> fails.
\<close>

theorem C3_fallback_not_applied:
  "map_option currentLanguage
     (Option.bind (init example_host example_engine) (setLanguage example_host ''ar''))
     = Some (Some ''ar'')
   \<and> map_option (\<lambda>st. translationsMap st ''ar'')
       (Option.bind (init example_host example_engine) (setLanguage example_host ''ar''))
     = Some None
   \<and> map_option (\<lambda>st. translationsMap st ''en'')
       (Option.bind (init example_host example_engine) (setLanguage example_host ''ar''))
     = Some (Some example_tree)
   \<and> map_option (\<lambda>st. map text_of (content (enginePage st)))
       (Option.bind (init example_host example_engine) (setLanguage example_host ''ar''))
     = Some [''Hello'']
   \<and> map_option (\<lambda>st. htmlLang (enginePage st))
       (Option.bind (init example_host example_engine) (setLanguage example_host ''ar''))
     = Some None
   \<and> map_option emitted
       (Option.bind (init example_host example_engine) (setLanguage example_host ''ar''))
     = Some [Ready (Some ''en''),
             ErrorEvent (Error ''No translations available for current language''),
             LanguageChanged (Some ''en'') ''ar'']
   \<and> fst (loadLanguage offline_host ''ar'' example_engine) = Inl (TypeError ''Failed to fetch'')"
  by code_simp

text \<open>
  C4 says that \<open>setLanguage\<close> with a code that is not in the registry fetches nothing and
  leaves the current language as it was. It fetches nothing, but its handler restores
  \<^verbatim>\<open>this.previousLanguage\<close>, which at that point still holds the value of an earlier call:
  after startup in English it is \<^verbatim>\<open>null\<close>, and \<open>setLanguage ''xx''\<close> makes \<^verbatim>\<open>null\<close> the
  current language.
\<close>

theorem C4_unsupported_code_changes_language:
  "map_of SUPPORTED_LANGUAGES ''xx'' = None
   \<and> registry_truthy ''xx'' = False
   \<and> map_option currentLanguage (init example_host example_engine) = Some (Some ''en'')
   \<and> map_option currentLanguage
        (Option.bind (init example_host example_engine) (setLanguage example_host ''xx''))
      = Some None
   \<and> map_option requests
        (Option.bind (init example_host example_engine) (setLanguage example_host ''xx''))
      = map_option requests (init example_host example_engine)"
  by code_simp

text \<open>
  C8 says that a stored candidate is used only if it is a code of the registry. The test
  is \<^verbatim>\<open>SUPPORTED_LANGUAGES[candidate]\<close>, which is also truthy for the names the registry
  object inherits: with \<^verbatim>\<open>?lang=constructor\<close> in the URL, \<open>getSavedLanguage\<close> returns
  \<^verbatim>\<open>"constructor"\<close>, and \<open>init\<close> makes it the current language and requests
  \<^verbatim>\<open>constructor.json\<close>.
\<close>

theorem C8_inherited_name_accepted:
  "map_of SUPPORTED_LANGUAGES ''constructor'' = None
   \<and> getSavedLanguage crafted_url_engine = Some ''constructor''
   \<and> map_option currentLanguage (init example_host crafted_url_engine)
     = Some (Some ''constructor'')
   \<and> map_option requests (init example_host crafted_url_engine)
     = Some [''/localization/languages/en.json'',
             ''/localization/languages/constructor.json'',
             ''/localization/languages/ar.json'']"
  by code_simp

text \<open>
  The order of the sources is as C8 says: the local storage, then the cookie, then the
  URL parameter; a candidate is returned only if the registry lookup is truthy for it,
  which holds of the registry's codes and of the inherited names.
\<close>

lemma getSavedLanguage_priority:
  "getSavedLanguage st =
     (case getItem (localStorage st) localStorageKey of
        Inl error \<Rightarrow> None
      | Inr saved \<Rightarrow>
          if candidate_ok saved then saved
          else if cookie_language (split_on CHR '';'' (document_cookie (cookieJar st))) \<noteq> None
          then cookie_language (split_on CHR '';'' (document_cookie (cookieJar st)))
          else if candidate_ok (urlLang st) then urlLang st
          else None)"
  by (simp add: getSavedLanguage_def split: sum.splits option.splits)

lemma cookie_language_truthy: "cookie_language cs = Some v \<Longrightarrow> registry_truthy v"
  by (induction cs) (auto split: list.splits if_splits)

lemma getSavedLanguage_truthy: "getSavedLanguage st = Some v \<Longrightarrow> registry_truthy v"
  by (auto simp: getSavedLanguage_def candidate_ok_def split: sum.splits option.splits if_splits
      dest: cookie_language_truthy)

lemma registry_truthy_iff:
  "registry_truthy c \<longleftrightarrow> map_of SUPPORTED_LANGUAGES c \<noteq> None \<or> inherited_by_object c"
  by (auto simp: registry_truthy_def registry_get_def inherited_by_object_def
      split: option.splits)

section \<open>Properties of the DOM synchronizers\<close>

lemma split_on_no_sep: "s \<in> set (split_on c key) \<Longrightarrow> c \<notin> set s"
proof (induction key arbitrary: s)
  case Nil
  then show ?case by simp
next
  case (Cons x xs)
  obtain seg segs where r: "split_on c xs = seg # segs"
    using split_on_nonempty [of c xs] by (cases "split_on c xs") auto
  show ?case
  proof (cases "x = c")
    case True
    with Cons show ?thesis by auto
  next
    case False
    with Cons.prems r have "s = x # seg \<or> s \<in> set segs" by auto
    with Cons.IH r False show ?thesis by auto
  qed
qed

lemma split_on_plain: "c \<notin> set s \<Longrightarrow> split_on c s = [s]"
  by (induction s) auto

lemma split_on_append: "c \<notin> set s \<Longrightarrow> split_on c (s @ c # r) = s # split_on c r"
  by (induction s) auto

lemma split_on_join:
  "segs \<noteq> [] \<Longrightarrow> \<forall>s \<in> set segs. c \<notin> set s \<Longrightarrow> split_on c (join_with c segs) = segs"
  by (induction c segs rule: join_with.induct) (auto simp: split_on_plain split_on_append)

lemma SLT_walk_prefix: "SLT_walk v ks = Got w \<Longrightarrow> \<exists>w'. SLT_walk v (take n ks) = Got w'"
proof (induction ks arbitrary: v n)
  case Nil
  then show ?case by simp
next
  case (Cons k ks)
  show ?case
  proof (cases n)
    case 0
    then show ?thesis by simp
  next
    case (Suc m)
    show ?thesis
    proof (cases "truthy v")
      case False
      with Suc show ?thesis by simp
    next
      case True
      with Cons.prems obtain u where u: "get_property v k = Got u"
        by (cases "get_property v k") auto
      show ?thesis
      proof (cases "u = JUndefined")
        case True
        with u Suc \<open>truthy v\<close> show ?thesis by simp
      next
        case False
        with u \<open>truthy v\<close> Cons.prems have "SLT_walk u ks = Got w" by simp
        then obtain w' where "SLT_walk u (take m ks) = Got w'"
          using Cons.IH by blast
        with u False Suc \<open>truthy v\<close> show ?thesis by simp
      qed
    qed
  qed
qed

lemma partial_matches_Normal:
  assumes "SLT_getTranslation translations key language = Got w"
    and "keys = split_on CHR ''.'' key"
    and "\<forall>i \<in> set is. 1 \<le> i"
  shows "\<exists>ms. partial_matches translations language keys is = Normal ms"
  using assms(3)
proof (induction "is")
  case Nil
  show ?case by simp
next
  case (Cons i "is")
  have ne: "take i keys \<noteq> []"
    using Cons.prems assms(2) split_on_nonempty [of "CHR ''.''" key] by (cases keys) auto
  have "\<forall>s \<in> set (take i keys). CHR ''.'' \<notin> set s"
    using assms(2) split_on_no_sep by (metis in_set_takeD)
  with ne have "split_on CHR ''.'' (join_with CHR ''.'' (take i keys)) = take i keys"
    by (rule split_on_join)
  moreover obtain w' where
    "SLT_walk (translations_for translations language) (take i keys) = Got w'"
    using assms(1,2) SLT_walk_prefix unfolding SLT_getTranslation_def by blast
  ultimately have g: "SLT_getTranslation translations (join_with CHR ''.'' (take i keys)) language
      = Got w'"
    by (simp add: SLT_getTranslation_def)
  from Cons obtain ms where "partial_matches translations language keys is = Normal ms"
    by auto
  with g show ?case by simp
qed

lemma findPartialTranslation_Normal:
  "SLT_getTranslation translations key language = Got w \<Longrightarrow>
   \<exists>ms. findPartialTranslation translations key language = Normal ms"
  unfolding findPartialTranslation_def Let_def
  by (rule partial_matches_Normal [where key = key]) auto

lemma textCallback_miss:
  assumes "getAttribute e ''data-i18n'' = Some key"
    and "SLT_getTranslation translations key language = Got v" and "\<not> truthy v"
  shows "textCallback parseHTML translations language e = Unchanged"
proof -
  obtain ms where "findPartialTranslation translations key language = Normal ms"
    using findPartialTranslation_Normal [OF assms(2)] by blast
  with assms show ?thesis by (simp add: textCallback_def)
qed


subsection \<open>Evaluating the callbacks on the examples\<close>

lemmas callback_eval =
  textCallback_def placeholderCallback_def valueCallback_def contentCallback_def
  getAttribute_def hasAttribute_def placeholder_branch_def set_placeholder_def set_value_def
  reflects_placeholder_def textContent_def has_markup_def

lemma lookup_example: "SLT_getTranslation [(''en'', example_tree)] ''hero.title'' ''en'' = Got (JStr ''Welcome'')"
  "SLT_getTranslation [(''en'', example_tree)] ''hero'' ''en'' = Got (JObj [(''title'', Leaf ''Welcome'')])"
  by (simp_all add: example_tree_def resolver_eval)

lemma loaded_example: "truthy (translations_for [(''en'', example_tree)] ''en'')"
  "own_keys_count (translations_for [(''en'', example_tree)] ''en'') \<noteq> 0"
  by (simp_all add: example_tree_def translations_for_def)




section \<open>C6: text content and parsed markup\<close>

text \<open>
  C6 says that on a hit for a text marker the synchronizer writes the string as parsed
  markup exactly when it holds both \<^verbatim>\<open><\<close> and \<^verbatim>\<open>>\<close>. The engine's
  \<open>updateContentWithDataAttributes\<close> has no such branch: it assigns \<^verbatim>\<open>textContent\<close> always,
  so \<^verbatim>\<open><b>Hi</b>\<close> arrives on a heading as one text node.
\<close>

theorem C6_counterexample:
  "has_markup ''<b>Hi</b>''
   \<and> LE_getTranslation None ''hero.title''
       (Some (Node [(''hero'', Node [(''title'', Leaf ''<b>Hi</b>'')])])) = JStr ''<b>Hi</b>''
   \<and> contentCallback None (Node [(''hero'', Node [(''title'', Leaf ''<b>Hi</b>'')])])
       \<lparr>tagName = ''H1'', inputType = [],
        attributes = [''data-i18n'' \<mapsto> ''hero.title''], properties = Map.empty\<rparr>
     = Children [TextNode ''<b>Hi</b>'']"
  by (simp add: callback_eval resolver_eval)

text \<open>
  C6, amended. For an element with a \<^verbatim>\<open>data-i18n\<close> key that resolves to a non-empty
  string \<open>s\<close>: the widget's \<open>applyTranslations\<close>, on an element that is not taken for a
  placeholder carrier, replaces the children by the parsed markup of \<open>s\<close> when \<open>s\<close> holds
  both \<^verbatim>\<open><\<close> and \<^verbatim>\<open>>\<close>, and by the single text node \<open>s\<close> otherwise; the engine's
  \<open>updateContentWithDataAttributes\<close>, on an element other than \<^verbatim>\<open>INPUT\<close> and \<^verbatim>\<open>TEXTAREA\<close>,
  replaces the children by the single text node \<open>s\<close> in both cases.
\<close>

theorem C6_text_or_markup:
  assumes "getAttribute e ''data-i18n'' = Some key" and "s \<noteq> []"
  shows
  "(SLT_getTranslation translations key language = Got (JStr s) \<and> \<not> placeholder_branch e \<longrightarrow>
      textCallback parseHTML translations language e
        = Children (if has_markup s then parseHTML (tagName e) s else [TextNode s]))
   \<and> (LE_getTranslation current key (Some t) = JStr s
        \<and> tagName e \<noteq> ''INPUT'' \<and> tagName e \<noteq> ''TEXTAREA'' \<longrightarrow>
      contentCallback current t e = Children [TextNode s])"
  using assms by (simp add: textCallback_def contentCallback_def textContent_def)

text \<open>The amended C6 on a heading whose key resolves to \<^verbatim>\<open><b>Hi</b>\<close>.\<close>

theorem C6_text_or_markup_witness:
  "getAttribute (marked ''H1'' ''data-i18n'' ''hero.title'') ''data-i18n'' = Some ''hero.title''
   \<and> SLT_getTranslation [(''en'', markup_tree)] ''hero.title'' ''en'' = Got (JStr ''<b>Hi</b>'')
   \<and> LE_getTranslation None ''hero.title'' (Some markup_tree) = JStr ''<b>Hi</b>''
   \<and> \<not> placeholder_branch (marked ''H1'' ''data-i18n'' ''hero.title'')
   \<and> has_markup ''<b>Hi</b>''
   \<and> textCallback example_parser [(''en'', markup_tree)] ''en''
         (marked ''H1'' ''data-i18n'' ''hero.title'')
       = Children (example_parser ''H1'' ''<b>Hi</b>'')
   \<and> contentCallback None markup_tree (marked ''H1'' ''data-i18n'' ''hero.title'')
       = Children [TextNode ''<b>Hi</b>'']"
proof -
  have a: "getAttribute (marked ''H1'' ''data-i18n'' ''hero.title'') ''data-i18n''
      = Some ''hero.title''"
    by (simp add: marked_def getAttribute_def)
  have n: "''<b>Hi</b>'' \<noteq> []" by simp
  have r: "SLT_getTranslation [(''en'', markup_tree)] ''hero.title'' ''en''
      = Got (JStr ''<b>Hi</b>'')"
    "LE_getTranslation None ''hero.title'' (Some markup_tree) = JStr ''<b>Hi</b>''"
    by (simp_all add: markup_tree_def resolver_eval)
  have b: "\<not> placeholder_branch (marked ''H1'' ''data-i18n'' ''hero.title'')"
    "tagName (marked ''H1'' ''data-i18n'' ''hero.title'') = ''H1''"
    by (simp_all add: marked_def placeholder_branch_def hasAttribute_def)
  have m: "has_markup ''<b>Hi</b>''" by (simp add: has_markup_def)
  from C6_text_or_markup [OF a n, of "[(''en'', markup_tree)]" "''en''" example_parser
      None markup_tree] r b m
  show ?thesis using a by simp
qed

subsection \<open>What a loop leaves in place\<close>









section \<open>C7: a miss leaves the element as it was\<close>




section \<open>The synchronizer of the widget as a function\<close>

subsection \<open>Writes to one element\<close>

lemma put_placeholder_simps [simp]:
  "tagName (put_placeholder e v) = tagName e"
  "inputType (put_placeholder e v) = inputType e"
  "a \<noteq> ''placeholder'' \<Longrightarrow> getAttribute (put_placeholder e v) a = getAttribute e a"
  "reflects_placeholder (put_placeholder e v) = reflects_placeholder e"
  by (auto simp: put_placeholder_def set_placeholder_def getAttribute_def
      reflects_placeholder_def split: option.splits)

lemma set_value_simps [simp]:
  "tagName (set_value e v) = tagName e"
  "inputType (set_value e v) = inputType e"
  "getAttribute (set_value e v) a = getAttribute e a"
  "hasAttribute (set_value e v) a = hasAttribute e a"
  "reflects_placeholder (set_value e v) = reflects_placeholder e"
  "placeholder_branch (set_value e v) = placeholder_branch e"
  by (simp_all add: set_value_def getAttribute_def hasAttribute_def reflects_placeholder_def
      placeholder_branch_def)

lemma placeholder_branch_put:
  "placeholder_branch (put_placeholder e v) =
     (placeholder_branch e \<or> (reflects_placeholder e \<and> js_to_string v \<noteq> None))"
  by (auto simp: put_placeholder_def set_placeholder_def placeholder_branch_def hasAttribute_def
      reflects_placeholder_def split: option.splits)

lemma marker_value_put [simp]:
  "a \<noteq> ''placeholder'' \<Longrightarrow> marker_value r (put_placeholder e v) a = marker_value r e a"
  by (simp add: marker_value_def)

lemma marker_value_set_value [simp]:
  "marker_value r (set_value e v) a = marker_value r e a"
  by (simp add: marker_value_def)

lemma set_value_twice [simp]: "set_value (set_value e u) v = set_value e v"
  by (simp add: set_value_def)

lemma put_set_commute: "put_placeholder (set_value e v) u = set_value (put_placeholder e u) v"
  by (auto simp: put_placeholder_def set_placeholder_def set_value_def reflects_placeholder_def
      fun_upd_twist split: option.splits)

lemma put_put_string [simp]:
  "put_placeholder (put_placeholder e u) (JStr s) = put_placeholder e (JStr s)"
  by (auto simp: put_placeholder_def set_placeholder_def reflects_placeholder_def
      split: option.splits)

lemma placeholder_branch_put_string [simp]:
  "placeholder_branch (put_placeholder e (JStr s)) = (placeholder_branch e \<or> reflects_placeholder e)"
  by (simp add: placeholder_branch_put)


lemma plain_cases: "plain v \<Longrightarrow> v = JNull \<or> (\<exists>s. v = JStr s)"
  by (cases v) auto

lemma valE_static [simp]:
  "tagName (valE r e) = tagName e"
  "getAttribute (valE r e) a = getAttribute e a"
  "marker_value r' (valE r e) a = marker_value r' e a"
  "placeholder_branch (valE r e) = placeholder_branch e"
  "reflects_placeholder (valE r e) = reflects_placeholder e"
  by (simp_all add: valE_def)

lemma phE_static [simp]:
  "tagName (phE r e) = tagName e"
  "a \<noteq> ''placeholder'' \<Longrightarrow> getAttribute (phE r e) a = getAttribute e a"
  "a \<noteq> ''placeholder'' \<Longrightarrow> marker_value r' (phE r e) a = marker_value r' e a"
  "reflects_placeholder (phE r e) = reflects_placeholder e"
  by (simp_all add: phE_def)

lemma textE_static [simp]:
  "tagName (textE r e) = tagName e"
  "a \<noteq> ''placeholder'' \<Longrightarrow> getAttribute (textE r e) a = getAttribute e a"
  "a \<noteq> ''placeholder'' \<Longrightarrow> marker_value r' (textE r e) a = marker_value r' e a"
  "reflects_placeholder (textE r e) = reflects_placeholder e"
  by (simp_all add: textE_def)

lemma placeholder_branch_mono:
  "placeholder_branch e \<Longrightarrow> placeholder_branch (put_placeholder e v)"
  "placeholder_branch e \<Longrightarrow> placeholder_branch (textE r e)"
  "placeholder_branch e \<Longrightarrow> placeholder_branch (phE r e)"
  by (simp_all add: placeholder_branch_put textE_def phE_def)

lemma textE_not_branch [simp]: "\<not> placeholder_branch e \<Longrightarrow> textE r e = e"
  by (simp add: textE_def)

lemma valE_phE: "valE r (phE r' x) = phE r' (valE r x)"
  by (simp add: valE_def phE_def put_set_commute)

lemma valE_textE: "valE r (textE r' x) = textE r' (valE r x)"
  by (simp add: valE_def textE_def put_set_commute)

lemma valE_sandwich:
  assumes "truthy (marker_value rT e ''data-i18n-value'')
      \<longrightarrow> truthy (marker_value rS e ''data-i18n-value'')"
  shows "valE rS (valE rT (valE rS e)) = valE rS e"
  using assms by (simp add: valE_def)

lemma put_absorbs:
  "put_placeholder (textE r x) (JStr s) = put_placeholder x (JStr s)"
  "put_placeholder (phE r x) (JStr s) = put_placeholder x (JStr s)"
  by (simp_all add: textE_def phE_def)

lemma placeholder_sandwich:
  assumes t: "marker_value rS e ''data-i18n'' = JNull
      \<or> (\<exists>s. marker_value rS e ''data-i18n'' = JStr s)"
    and p: "marker_value rS e ''data-i18n-placeholder'' = JNull
      \<or> (\<exists>s. marker_value rS e ''data-i18n-placeholder'' = JStr s)"
    and mt: "truthy (marker_value rT e ''data-i18n'') \<longrightarrow> truthy (marker_value rS e ''data-i18n'')"
    and mp: "truthy (marker_value rT e ''data-i18n-placeholder'')
      \<longrightarrow> truthy (marker_value rS e ''data-i18n-placeholder'')"
  shows "phE rS (textE rS (phE rT (textE rT (phE rS (textE rS e))))) = phE rS (textE rS e)"
proof (cases "truthy (marker_value rS e ''data-i18n-placeholder'')")
  case True
  with p obtain s where s: "marker_value rS e ''data-i18n-placeholder'' = JStr s" by auto
  have "\<And>y. marker_value rS y ''data-i18n-placeholder'' = JStr s \<Longrightarrow>
      phE rS y = put_placeholder y (JStr s)"
    using True s by (simp add: phE_def)
  then show ?thesis using s by (simp add: put_absorbs)
next
  case False
  with mp have nT: "\<not> truthy (marker_value rT e ''data-i18n-placeholder'')" by simp
  have idS: "\<And>y. marker_value rS y ''data-i18n-placeholder''
      = marker_value rS e ''data-i18n-placeholder'' \<Longrightarrow> phE rS y = y"
    using False by (simp add: phE_def)
  have idT: "\<And>y. marker_value rT y ''data-i18n-placeholder''
      = marker_value rT e ''data-i18n-placeholder'' \<Longrightarrow> phE rT y = y"
    using nT by (simp add: phE_def)
  have "textE rS (textE rT (textE rS e)) = textE rS e"
  proof (cases "placeholder_branch e")
    case False
    then show ?thesis by simp
  next
    case True
    show ?thesis
    proof (cases "truthy (marker_value rS e ''data-i18n'')")
      case False
      with mt have "\<not> truthy (marker_value rT e ''data-i18n'')" by simp
      with False show ?thesis by (simp add: textE_def)
    next
      case hit: True
      with t obtain s where s: "marker_value rS e ''data-i18n'' = JStr s" by auto
      with hit True have 1: "textE rS e = put_placeholder e (JStr s)" by (simp add: textE_def)
      have b: "placeholder_branch (textE rT (put_placeholder e (JStr s)))"
        using True by (simp add: placeholder_branch_mono)
      have "textE rS (textE rT (put_placeholder e (JStr s)))
          = put_placeholder (textE rT (put_placeholder e (JStr s))) (JStr s)"
        using b hit s by (simp add: textE_def)
      also have "\<dots> = put_placeholder e (JStr s)" by (simp add: put_absorbs)
      finally show ?thesis using 1 by simp
    qed
  qed
  then show ?thesis by (simp add: idS idT)
qed

lemma syncE_sandwich:
  assumes "fit parseHTML rS rT e"
  shows "syncE rS (syncE rT (syncE rS e)) = syncE rS e"
proof -
  from assms have p: "marker_value rS e ''data-i18n'' = JNull
      \<or> (\<exists>s. marker_value rS e ''data-i18n'' = JStr s)"
    "marker_value rS e ''data-i18n-placeholder'' = JNull
      \<or> (\<exists>s. marker_value rS e ''data-i18n-placeholder'' = JStr s)"
    and m: "truthy (marker_value rT e ''data-i18n'') \<longrightarrow> truthy (marker_value rS e ''data-i18n'')"
    "truthy (marker_value rT e ''data-i18n-placeholder'')
      \<longrightarrow> truthy (marker_value rS e ''data-i18n-placeholder'')"
    "truthy (marker_value rT e ''data-i18n-value'')
      \<longrightarrow> truthy (marker_value rS e ''data-i18n-value'')"
    by (simp_all add: fit_def marker_attributes_def plain_cases)
  have "syncE rS (syncE rT (syncE rS e))
      = valE rS (valE rT (valE rS
          (phE rS (textE rS (phE rT (textE rT (phE rS (textE rS e))))))))"
    by (simp add: syncE_def valE_phE valE_textE)
  also have "\<dots> = valE rS (phE rS (textE rS (phE rT (textE rT (phE rS (textE rS e))))))"
    by (rule valE_sandwich) (use m(3) in simp)
  also have "\<dots> = valE rS (phE rS (textE rS e))"
    by (simp add: placeholder_sandwich [OF p m(1,2)])
  finally show ?thesis by (simp add: syncE_def)
qed


subsection \<open>One element under a whole pass\<close>

lemma syncE_static [simp]:
  "tagName (syncE r e) = tagName e"
  "a \<noteq> ''placeholder'' \<Longrightarrow> getAttribute (syncE r e) a = getAttribute e a"
  "a \<noteq> ''placeholder'' \<Longrightarrow> marker_value r' (syncE r e) a = marker_value r' e a"
  "reflects_placeholder (syncE r e) = reflects_placeholder e"
  by (simp_all add: syncE_def)

lemma new_children_syncE [simp]: "new_children parseHTML r (syncE r' e) = new_children parseHTML r e"
  by (simp add: new_children_def split: jsval.splits)

lemma fit_syncE [simp]: "fit parseHTML rS rT (syncE r e) = fit parseHTML rS rT e"
  by (simp add: fit_def marker_attributes_def)

lemma placeholder_branch_textE [simp]: "placeholder_branch (textE r e) = placeholder_branch e"
  by (simp add: textE_def placeholder_branch_put)

lemma placeholder_branch_syncE:
  "placeholder_branch (syncE r e) =
     (placeholder_branch e
      \<or> (truthy (marker_value r e ''data-i18n-placeholder'') \<and> reflects_placeholder e
         \<and> js_to_string (marker_value r e ''data-i18n-placeholder'') \<noteq> None))"
  by (auto simp: syncE_def phE_def placeholder_branch_put)

lemma replaces_kept:
  assumes "fit parseHTML rS rT e" and "replaces rS e" and "replaces rT (syncE rS e)"
  shows "replaces rS (syncE rT (syncE rS e))"
proof -
  from assms(1) have p: "plain (marker_value rS e ''data-i18n-placeholder'')"
    and m: "truthy (marker_value rT e ''data-i18n-placeholder'')
      \<longrightarrow> truthy (marker_value rS e ''data-i18n-placeholder'')"
    by (simp_all add: fit_def marker_attributes_def)
  from assms(3) have n1: "\<not> placeholder_branch (syncE rS e)" by (simp add: replaces_def)
  have "\<not> placeholder_branch (syncE rT (syncE rS e))"
  proof
    assume "placeholder_branch (syncE rT (syncE rS e))"
    with n1 have t: "truthy (marker_value rT e ''data-i18n-placeholder'')"
      and r: "reflects_placeholder e"
      by (auto simp: placeholder_branch_syncE [of rT])
    with m have "truthy (marker_value rS e ''data-i18n-placeholder'')" by simp
    with p obtain s where "marker_value rS e ''data-i18n-placeholder'' = JStr s" "s \<noteq> []"
      using plain_cases by fastforce
    with r have "placeholder_branch (syncE rS e)"
      by (simp add: placeholder_branch_syncE [of rS])
    with n1 show False by simp
  qed
  with assms(2) show ?thesis by (simp add: replaces_def)
qed

lemma not_replaces_kept:
  assumes "fit parseHTML rS rT e" and "\<not> replaces rS e"
  shows "\<not> replaces rT (syncE rS e)" and "\<not> replaces rS (syncE rT (syncE rS e))"
proof -
  from assms(1) have m: "truthy (marker_value rT e ''data-i18n'')
      \<longrightarrow> truthy (marker_value rS e ''data-i18n'')"
    by (simp add: fit_def marker_attributes_def)
  show "\<not> replaces rT (syncE rS e)"
    using assms(2) m by (auto simp: replaces_def placeholder_branch_syncE)
  show "\<not> replaces rS (syncE rT (syncE rS e))"
    using assms(2) m by (auto simp: replaces_def placeholder_branch_syncE)
qed

subsection \<open>The pass on trees\<close>

lemma elements_of_member: "k \<in> set ks \<Longrightarrow> set (elements_of k) \<subseteq> set (elements_of_list ks)"
  by (induction ks) auto

lemma mapE_id:
  "(\<forall>e \<in> set (elements_of n). f e = e) \<Longrightarrow> mapE f n = n"
  "(\<forall>e \<in> set (elements_of_list ns). f e = e) \<Longrightarrow> map (mapE f) ns = ns"
  by (induction n and ns rule: elements_of_elements_of_list.induct) auto

lemma text1_id:
  "(\<forall>e \<in> set (elements_of n). \<not> truthy (marker_value r e ''data-i18n'')) \<Longrightarrow>
     text1 parseHTML r n = n"
  "(\<forall>e \<in> set (elements_of_list ns). \<not> truthy (marker_value r e ''data-i18n'')) \<Longrightarrow>
     map (text1 parseHTML r) ns = ns"
  by (induction n and ns rule: elements_of_elements_of_list.induct)
     (auto simp: replaces_def textE_def)

lemma no_marker_value: "\<not> carries_marker e \<Longrightarrow> a \<in> set marker_attributes \<Longrightarrow> marker_value r e a = JNull"
  by (auto simp: carries_marker_def marker_value_def hasAttribute_def getAttribute_def
      list_ex_iff split: option.splits)

lemma sync_no_hits:
  assumes "\<forall>e \<in> set (elements_of_list ns). \<forall>a \<in> set marker_attributes.
      \<not> truthy (marker_value r e a)"
  shows "map (sync parseHTML r) ns = ns"
proof -
  have t: "map (text1 parseHTML r) ns = ns"
    using assms by (intro text1_id(2)) (simp add: marker_attributes_def)
  have p: "map (mapE (phE r)) ns = ns"
    using assms by (intro mapE_id(2)) (simp add: marker_attributes_def phE_def)
  have v: "map (mapE (valE r)) ns = ns"
    using assms by (intro mapE_id(2)) (simp add: marker_attributes_def valE_def)
  have "map (sync parseHTML r) ns
      = map (mapE (valE r)) (map (mapE (phE r)) (map (text1 parseHTML r) ns))"
    by (simp add: sync_def)
  then show ?thesis by (simp only: t p v)
qed

lemma sync_marker_free: "marker_free ns \<Longrightarrow> map (sync parseHTML r) ns = ns"
  by (rule sync_no_hits) (auto simp: marker_free_def list_ex_iff no_marker_value)

lemma sync_TextNode [simp]: "sync parseHTML r (TextNode s) = TextNode s"
  by (simp add: sync_def)

lemma sync_keep:
  "\<not> replaces r e \<Longrightarrow>
   sync parseHTML r (Element e ks) = Element (syncE r e) (map (sync parseHTML r) ks)"
  by (simp add: sync_def syncE_def)

lemma sync_root:
  "\<exists>ks'. sync parseHTML r (Element e ks) = Element (syncE r e) ks'"
  by (simp add: sync_def syncE_def replaces_def)

lemma no_marker_fixed:
  assumes "\<not> carries_marker e"
  shows "phE r e = e" and "valE r e = e"
  using assms by (simp_all add: phE_def valE_def no_marker_value marker_attributes_def)

lemma sync_replace:
  assumes "replaces r e" and "marker_free (new_children parseHTML r e)"
  shows "sync parseHTML r (Element e ks) = Element (syncE r e) (new_children parseHTML r e)"
proof -
  have n: "\<forall>x \<in> set (elements_of_list (new_children parseHTML r e)). \<not> carries_marker x"
    using assms(2) by (simp add: marker_free_def list_ex_iff)
  have "map (mapE (phE r)) (new_children parseHTML r e) = new_children parseHTML r e"
    using n by (intro mapE_id(2)) (simp add: no_marker_fixed)
  moreover have "map (mapE (valE r)) (new_children parseHTML r e) = new_children parseHTML r e"
    using n by (intro mapE_id(2)) (simp add: no_marker_fixed)
  ultimately show ?thesis
    using assms(1) by (simp add: sync_def syncE_def replaces_def)
qed

lemma sync_sandwich:
  "\<forall>e \<in> set (elements_of (sync parseHTML rS n)). fit parseHTML rS rT e \<Longrightarrow>
   sync parseHTML rS (sync parseHTML rT (sync parseHTML rS n)) = sync parseHTML rS n"
proof (induction n)
  case (TextNode s)
  show ?case by simp
next
  case (Element e ks)
  obtain ks1 where r1: "sync parseHTML rS (Element e ks) = Element (syncE rS e) ks1"
    using sync_root by blast
  with Element.prems have "fit parseHTML rS rT (syncE rS e)" by simp
  then have f: "fit parseHTML rS rT e" by simp
  then have mf: "marker_free (new_children parseHTML rS e)" by (simp add: fit_def)
  have E: "syncE rS (syncE rT (syncE rS e)) = syncE rS e"
    using f by (rule syncE_sandwich)
  show ?case
  proof (cases "replaces rS e")
    case True
    then have s1: "sync parseHTML rS (Element e ks)
        = Element (syncE rS e) (new_children parseHTML rS e)"
      using mf by (rule sync_replace)
    show ?thesis
    proof (cases "replaces rT (syncE rS e)")
      case rT: True
      obtain ks2 where s2: "sync parseHTML rT (Element (syncE rS e) (new_children parseHTML rS e))
          = Element (syncE rT (syncE rS e)) ks2"
        using sync_root by blast
      have "replaces rS (syncE rT (syncE rS e))"
        using f True rT by (rule replaces_kept)
      then have "sync parseHTML rS (Element (syncE rT (syncE rS e)) ks2)
          = Element (syncE rS (syncE rT (syncE rS e)))
              (new_children parseHTML rS (syncE rT (syncE rS e)))"
        by (rule sync_replace) (simp add: mf)
      with s1 s2 E show ?thesis by simp
    next
      case rT: False
      have s2: "sync parseHTML rT (Element (syncE rS e) (new_children parseHTML rS e))
          = Element (syncE rT (syncE rS e)) (new_children parseHTML rS e)"
        using rT mf by (simp add: sync_keep sync_marker_free)
      show ?thesis
      proof (cases "replaces rS (syncE rT (syncE rS e))")
        case True
        then have "sync parseHTML rS (Element (syncE rT (syncE rS e)) (new_children parseHTML rS e))
            = Element (syncE rS (syncE rT (syncE rS e)))
                (new_children parseHTML rS (syncE rT (syncE rS e)))"
          by (rule sync_replace) (simp add: mf)
        with s1 s2 E show ?thesis by simp
      next
        case False
        then have "sync parseHTML rS (Element (syncE rT (syncE rS e)) (new_children parseHTML rS e))
            = Element (syncE rS (syncE rT (syncE rS e))) (new_children parseHTML rS e)"
          using mf by (simp add: sync_keep sync_marker_free)
        with s1 s2 E show ?thesis by simp
      qed
    qed
  next
    case False
    then have s1: "sync parseHTML rS (Element e ks)
        = Element (syncE rS e) (map (sync parseHTML rS) ks)"
      by (rule sync_keep)
    have nT: "\<not> replaces rT (syncE rS e)" and nS: "\<not> replaces rS (syncE rT (syncE rS e))"
      using not_replaces_kept [OF f False] by simp_all
    have kids: "\<And>k. k \<in> set ks \<Longrightarrow>
        sync parseHTML rS (sync parseHTML rT (sync parseHTML rS k)) = sync parseHTML rS k"
    proof -
      fix k assume k: "k \<in> set ks"
      then have "sync parseHTML rS k \<in> set (map (sync parseHTML rS) ks)" by simp
      then have "set (elements_of (sync parseHTML rS k))
          \<subseteq> set (elements_of_list (map (sync parseHTML rS) ks))"
        by (rule elements_of_member)
      with Element.prems s1
      have "\<forall>e \<in> set (elements_of (sync parseHTML rS k)). fit parseHTML rS rT e"
        by auto
      with k show "sync parseHTML rS (sync parseHTML rT (sync parseHTML rS k))
          = sync parseHTML rS k"
        by (rule Element.IH)
    qed
    have "sync parseHTML rS (sync parseHTML rT (sync parseHTML rS (Element e ks)))
        = Element (syncE rS (syncE rT (syncE rS e)))
            (map (sync parseHTML rS) (map (sync parseHTML rT) (map (sync parseHTML rS) ks)))"
      using s1 nT nS by (simp add: sync_keep)
    also have "\<dots> = Element (syncE rS e) (map (sync parseHTML rS) ks)"
      using E kids by simp
    finally show ?thesis using s1 by simp
  qed
qed


subsection \<open>The loops of \<open>applyTranslations\<close> on a well-marked document\<close>

lemma forEach_text1:
  "(\<forall>e \<in> set (elements_of n).
      callback e = (if replaces r e then Children (new_children parseHTML r e)
                    else if truthy (marker_value r e ''data-i18n'') then Updated (textE r e)
                    else Unchanged)) \<Longrightarrow>
   forEach_node callback n = Normal (text1 parseHTML r n)"
  "(\<forall>e \<in> set (elements_of_list ns).
      callback e = (if replaces r e then Children (new_children parseHTML r e)
                    else if truthy (marker_value r e ''data-i18n'') then Updated (textE r e)
                    else Unchanged)) \<Longrightarrow>
   forEach_list callback ns = Normal (map (text1 parseHTML r) ns)"
  by (induction callback n and callback ns rule: forEach_node_forEach_list.induct)
     (auto simp: textE_def)

lemma forEach_mapE:
  "(\<forall>e \<in> set (elements_of n). callback e = Updated (f e) \<or> callback e = Unchanged \<and> f e = e) \<Longrightarrow>
   forEach_node callback n = Normal (mapE f n)"
  "(\<forall>e \<in> set (elements_of_list ns).
      callback e = Updated (f e) \<or> callback e = Unchanged \<and> f e = e) \<Longrightarrow>
   forEach_list callback ns = Normal (map (mapE f) ns)"
  by (induction callback n and callback ns rule: forEach_node_forEach_list.induct) auto

lemma elements_mapE:
  "elements_of (mapE f n) = map f (elements_of n)"
  "elements_of_list (map (mapE f) ns) = map f (elements_of_list ns)"
  by (induction n and ns rule: elements_of_elements_of_list.induct) auto

lemma replaces_textE: "replaces r e \<Longrightarrow> textE r e = e"
  by (simp add: replaces_def)

lemma elements_text1:
  "\<forall>e \<in> set (elements_of n). marker_free (new_children parseHTML r e) \<Longrightarrow>
   e' \<in> set (elements_of (text1 parseHTML r n)) \<Longrightarrow>
   (\<exists>e \<in> set (elements_of n). e' = textE r e) \<or> \<not> carries_marker e'"
  "\<forall>e \<in> set (elements_of_list ns). marker_free (new_children parseHTML r e) \<Longrightarrow>
   e' \<in> set (elements_of_list (map (text1 parseHTML r) ns)) \<Longrightarrow>
   (\<exists>e \<in> set (elements_of_list ns). e' = textE r e) \<or> \<not> carries_marker e'"
  by (induction n and ns rule: elements_of_elements_of_list.induct)
     (auto simp: marker_free_def list_ex_iff replaces_textE split: if_splits)

lemma resolves_plainly_cases:
  "resolves_plainly x \<Longrightarrow> x = Got JNull \<or> (\<exists>s. x = Got (JStr s))"
  by (cases x rule: resolves_plainly.cases) auto

lemma well_marked_plain:
  assumes "well_marked parseHTML translations language e" and "a \<in> set marker_attributes"
  shows "getAttribute e a = None
    \<or> (\<exists>key. getAttribute e a = Some key
          \<and> (SLT_getTranslation translations key language = Got JNull
              \<or> (\<exists>s. SLT_getTranslation translations key language = Got (JStr s))))"
proof (cases "getAttribute e a")
  case None
  then show ?thesis by simp
next
  case (Some key)
  with assms have "resolves_plainly (SLT_getTranslation translations key language)"
    by (auto simp: well_marked_def list_all_iff)
  with Some show ?thesis using resolves_plainly_cases by blast
qed

lemma set_placeholder_string:
  "set_placeholder e (JStr s) = Some (put_placeholder e (JStr s))"
  by (simp add: put_placeholder_def set_placeholder_def)

lemma textCallback_pure:
  assumes "well_marked parseHTML translations language e"
  shows "textCallback parseHTML translations language e =
     (if replaces (resolved translations language) e
      then Children (new_children parseHTML (resolved translations language) e)
      else if truthy (marker_value (resolved translations language) e ''data-i18n'')
      then Updated (textE (resolved translations language) e)
      else Unchanged)"
proof -
  have "''data-i18n'' \<in> set marker_attributes" by (simp add: marker_attributes_def)
  from well_marked_plain [OF assms this]
  consider "getAttribute e ''data-i18n'' = None"
    | key where "getAttribute e ''data-i18n'' = Some key"
        "SLT_getTranslation translations key language = Got JNull"
    | key s where "getAttribute e ''data-i18n'' = Some key"
        "SLT_getTranslation translations key language = Got (JStr s)"
    by auto
  then show ?thesis
  proof cases
    case 1
    then show ?thesis by (simp add: textCallback_def replaces_def marker_value_def)
  next
    case 2
    then have "textCallback parseHTML translations language e = Unchanged"
      by (simp add: textCallback_miss)
    with 2 show ?thesis by (simp add: replaces_def marker_value_def resolved_def)
  next
    case 3
    show ?thesis
    proof (cases "s = []")
      case True
      with 3 have "textCallback parseHTML translations language e = Unchanged"
        by (simp add: textCallback_miss)
      with 3 True show ?thesis by (simp add: replaces_def marker_value_def resolved_def)
    next
      case False
      with 3 show ?thesis
        by (simp add: textCallback_def replaces_def marker_value_def resolved_def
            new_children_def textE_def set_placeholder_string)
    qed
  qed
qed

lemma placeholderCallback_pure:
  assumes "well_marked parseHTML translations language e"
  shows "placeholderCallback translations language e
       = Updated (phE (resolved translations language) e)
     \<or> placeholderCallback translations language e = Unchanged
       \<and> phE (resolved translations language) e = e"
proof -
  have "''data-i18n-placeholder'' \<in> set marker_attributes" by (simp add: marker_attributes_def)
  from well_marked_plain [OF assms this]
  consider "getAttribute e ''data-i18n-placeholder'' = None"
    | key where "getAttribute e ''data-i18n-placeholder'' = Some key"
        "SLT_getTranslation translations key language = Got JNull"
    | key s where "getAttribute e ''data-i18n-placeholder'' = Some key"
        "SLT_getTranslation translations key language = Got (JStr s)"
    by auto
  then show ?thesis
    by cases
      (simp_all add: placeholderCallback_def phE_def marker_value_def resolved_def
        set_placeholder_string)
qed

lemma valueCallback_pure:
  assumes "well_marked parseHTML translations language e"
  shows "valueCallback translations language e
       = Updated (valE (resolved translations language) e)
     \<or> valueCallback translations language e = Unchanged
       \<and> valE (resolved translations language) e = e"
proof -
  have "''data-i18n-value'' \<in> set marker_attributes" by (simp add: marker_attributes_def)
  from well_marked_plain [OF assms this]
  consider "getAttribute e ''data-i18n-value'' = None"
    | key where "getAttribute e ''data-i18n-value'' = Some key"
        "SLT_getTranslation translations key language = Got JNull"
    | key s where "getAttribute e ''data-i18n-value'' = Some key"
        "SLT_getTranslation translations key language = Got (JStr s)"
    by auto
  then show ?thesis
    by cases (simp_all add: valueCallback_def valE_def marker_value_def resolved_def)
qed


lemma carries_marker_static:
  assumes "\<forall>a \<in> set marker_attributes. getAttribute e' a = getAttribute e a"
  shows "carries_marker e' = carries_marker e"
  using assms by (simp add: carries_marker_def hasAttribute_def getAttribute_def list_ex_iff)

lemma carries_marker_simps [simp]:
  "carries_marker (textE r e) = carries_marker e"
  "carries_marker (phE r e) = carries_marker e"
  "carries_marker (valE r e) = carries_marker e"
  "carries_marker (syncE r e) = carries_marker e"
  by (rule carries_marker_static; simp add: marker_attributes_def)+

lemma well_marked_simps [simp]:
  "well_marked parseHTML translations language (textE r e)
     = well_marked parseHTML translations language e"
  "well_marked parseHTML translations language (phE r e)
     = well_marked parseHTML translations language e"
  "well_marked parseHTML translations language (valE r e)
     = well_marked parseHTML translations language e"
  "well_marked parseHTML translations language (syncE r e)
     = well_marked parseHTML translations language e"
  by (simp_all add: well_marked_def marker_attributes_def
      cong: option.case_cong read.case_cong jsval.case_cong)

lemma mirrored_simps [simp]:
  "mirrored translations l1 l2 (syncE r e) = mirrored translations l1 l2 e"
  by (simp add: mirrored_def marker_attributes_def)

lemma no_marker_attribute:
  "\<not> carries_marker e \<Longrightarrow> a \<in> set marker_attributes \<Longrightarrow> getAttribute e a = None"
  by (auto simp: carries_marker_def hasAttribute_def getAttribute_def list_ex_iff)

lemma no_marker_well_marked:
  "\<not> carries_marker e \<Longrightarrow> well_marked parseHTML translations language e"
  by (simp add: well_marked_def marker_attributes_def no_marker_attribute)

lemma no_marker_mirrored: "\<not> carries_marker e \<Longrightarrow> mirrored translations l1 l2 e"
  by (simp add: mirrored_def marker_attributes_def no_marker_attribute)

lemma marker_free_textContent [simp]: "marker_free (textContent s)" "marker_free []"
  by (simp_all add: marker_free_def textContent_def)

lemma well_marked_new_children:
  assumes "well_marked parseHTML translations language e"
  shows "marker_free (new_children parseHTML (resolved translations language) e)"
proof (cases "getAttribute e ''data-i18n''")
  case None
  then show ?thesis by (simp add: new_children_def marker_value_def)
next
  case (Some key)
  with assms show ?thesis
    by (cases "SLT_getTranslation translations key language")
       (auto simp: well_marked_def new_children_def marker_value_def resolved_def
         split: jsval.splits)
qed

lemma marker_value_resolved:
  "marker_value (resolved translations language) e a =
     (case getAttribute e a of None \<Rightarrow> JNull | Some key \<Rightarrow> resolved translations language key)"
  by (simp add: marker_value_def)

lemma well_marked_plain_value:
  assumes "well_marked parseHTML translations language e" and "a \<in> set marker_attributes"
  shows "plain (marker_value (resolved translations language) e a)"
  using well_marked_plain [OF assms]
  by (auto simp: marker_value_def resolved_def)


lemma well_marked_fit_self:
  assumes "well_marked parseHTML translations language e"
  shows "fit parseHTML (resolved translations language) (\<lambda>key. JNull) e"
  unfolding fit_def
proof (intro conjI ballI)
  fix a assume a: "a \<in> set marker_attributes"
  show "plain (marker_value (resolved translations language) e a)"
    using assms a by (rule well_marked_plain_value)
  show "truthy (marker_value (\<lambda>key. JNull) e a)
      \<longrightarrow> truthy (marker_value (resolved translations language) e a)"
    by (simp add: marker_value_def split: option.splits)
next
  show "marker_free (new_children parseHTML (resolved translations language) e)"
    using assms by (rule well_marked_new_children)
qed

lemma elements_sync:
  assumes "\<forall>e \<in> set (elements_of_list ns). marker_free (new_children parseHTML r e)"
    and "e' \<in> set (elements_of_list (map (sync parseHTML r) ns))"
  shows "(\<exists>e \<in> set (elements_of_list ns). e' = syncE r e) \<or> \<not> carries_marker e'"
proof -
  have "map (sync parseHTML r) ns
      = map (mapE (valE r)) (map (mapE (phE r)) (map (text1 parseHTML r) ns))"
    by (simp add: sync_def)
  with assms(2) have "e' \<in> set (elements_of_list
      (map (mapE (valE r)) (map (mapE (phE r)) (map (text1 parseHTML r) ns))))"
    by simp
  then have "e' \<in> valE r ` phE r ` set (elements_of_list (map (text1 parseHTML r) ns))"
    by (simp only: elements_mapE set_map)
  then obtain x where x: "x \<in> set (elements_of_list (map (text1 parseHTML r) ns))"
    and e': "e' = valE r (phE r x)"
    by auto
  from elements_text1(2) [OF assms(1) x]
  show ?thesis
  proof
    assume "\<exists>e \<in> set (elements_of_list ns). x = textE r e"
    with e' show ?thesis by (auto simp: syncE_def)
  next
    assume "\<not> carries_marker x"
    with e' show ?thesis by simp
  qed
qed

lemma sync_well_marked:
  assumes "\<forall>e \<in> set (elements_of_list ns). well_marked parseHTML translations l e"
    and "\<forall>e \<in> set (elements_of_list ns). well_marked parseHTML translations l' e"
  shows "\<forall>e \<in> set (elements_of_list (map (sync parseHTML (resolved translations l)) ns)).
      well_marked parseHTML translations l' e"
proof
  fix e' assume "e' \<in> set (elements_of_list (map (sync parseHTML (resolved translations l)) ns))"
  moreover have "\<forall>e \<in> set (elements_of_list ns).
      marker_free (new_children parseHTML (resolved translations l) e)"
    using assms(1) by (simp add: well_marked_new_children)
  ultimately have "(\<exists>e \<in> set (elements_of_list ns). e' = syncE (resolved translations l) e)
      \<or> \<not> carries_marker e'"
    by (intro elements_sync)
  with assms(2) show "well_marked parseHTML translations l' e'"
    by (auto simp: no_marker_well_marked)
qed


lemma text1_well_marked:
  assumes "\<forall>e \<in> set (elements_of_list ns). well_marked parseHTML translations l e"
  shows "\<forall>e \<in> set (elements_of_list (map (text1 parseHTML (resolved translations l)) ns)).
      well_marked parseHTML translations l e"
proof
  fix e'
  assume "e' \<in> set (elements_of_list (map (text1 parseHTML (resolved translations l)) ns))"
  moreover have "\<forall>e \<in> set (elements_of_list ns).
      marker_free (new_children parseHTML (resolved translations l) e)"
    using assms by (simp add: well_marked_new_children)
  ultimately have "(\<exists>e \<in> set (elements_of_list ns). e' = textE (resolved translations l) e)
      \<or> \<not> carries_marker e'"
    by (intro elements_text1(2))
  with assms show "well_marked parseHTML translations l e'"
    by (auto simp: no_marker_well_marked)
qed

lemma applyTranslations_well_marked:
  assumes wm: "\<forall>e \<in> set (elements_of_list d). well_marked parseHTML translations l e"
  shows "applyTranslations parseHTML translations l d =
     Normal (if \<not> truthy (translations_for translations l)
                \<or> own_keys_count (translations_for translations l) = 0
             then d else map (sync parseHTML (resolved translations l)) d)"
proof -
  let ?r = "resolved translations l"
  let ?d1 = "map (text1 parseHTML ?r) d"
  let ?d2 = "map (mapE (phE ?r)) ?d1"
  have 1: "forEach_list (textCallback parseHTML translations l) d = Normal ?d1"
    using wm by (intro forEach_text1(2)) (simp add: textCallback_pure)
  have wm1: "\<forall>e \<in> set (elements_of_list ?d1). well_marked parseHTML translations l e"
    using wm by (rule text1_well_marked)
  have 2: "forEach_list (placeholderCallback translations l) ?d1 = Normal ?d2"
  proof (intro forEach_mapE(2) ballI)
    fix e assume "e \<in> set (elements_of_list ?d1)"
    with wm1 have "well_marked parseHTML translations l e" by blast
    then show "placeholderCallback translations l e = Updated (phE ?r e)
        \<or> placeholderCallback translations l e = Unchanged \<and> phE ?r e = e"
      by (rule placeholderCallback_pure)
  qed
  have wm2: "\<forall>e \<in> set (elements_of_list ?d2). well_marked parseHTML translations l e"
    unfolding elements_mapE(2) using wm1 by simp
  have 3: "forEach_list (valueCallback translations l) ?d2 = Normal (map (mapE (valE ?r)) ?d2)"
  proof (intro forEach_mapE(2) ballI)
    fix e assume "e \<in> set (elements_of_list ?d2)"
    with wm2 have "well_marked parseHTML translations l e" by blast
    then show "valueCallback translations l e = Updated (valE ?r e)
        \<or> valueCallback translations l e = Unchanged \<and> valE ?r e = e"
      by (rule valueCallback_pure)
  qed
  have "map (mapE (valE ?r)) ?d2 = map (sync parseHTML ?r) d"
    by (simp add: sync_def)
  with 1 2 3 show ?thesis
    by (simp add: applyTranslations_def)
qed

lemma sync_null: "map (sync parseHTML (\<lambda>key. JNull)) ns = ns"
  by (rule sync_no_hits) (simp add: marker_value_def split: option.splits)

lemma sync_idempotent:
  assumes "\<forall>e \<in> set (elements_of_list d). well_marked parseHTML translations l e"
  shows "map (sync parseHTML (resolved translations l))
           (map (sync parseHTML (resolved translations l)) d)
       = map (sync parseHTML (resolved translations l)) d"
proof -
  let ?r = "resolved translations l"
  have wm: "\<forall>e \<in> set (elements_of_list (map (sync parseHTML ?r) d)).
      well_marked parseHTML translations l e"
    using assms assms by (rule sync_well_marked)
  have "sync parseHTML ?r (sync parseHTML (\<lambda>key. JNull) (sync parseHTML ?r n))
      = sync parseHTML ?r n" if "n \<in> set d" for n
  proof (rule sync_sandwich)
    have "set (elements_of (sync parseHTML ?r n))
        \<subseteq> set (elements_of_list (map (sync parseHTML ?r) d))"
      using that by (induction d) auto
    with wm show "\<forall>e \<in> set (elements_of (sync parseHTML ?r n)).
        fit parseHTML ?r (\<lambda>key. JNull) e"
      by (auto intro: well_marked_fit_self)
  qed
  moreover have "sync parseHTML (\<lambda>key. JNull) m = m" for m
    using sync_null [of parseHTML "[m]"] by simp
  ultimately show ?thesis by simp
qed



subsection \<open>The engine's direction attribute\<close>


section \<open>C2: running \<open>applyTranslations\<close> twice\<close>

text \<open>
  C2 says that a second run of \<open>applyTranslations\<close> with the same tree changes nothing,
  for every tree. On a page where a heading with the key \<^verbatim>\<open>hero.title\<close> holds a \<^verbatim>\<open>span\<close>
  with the key \<^verbatim>\<open>hero\<close>, which names a subtree, the first run translates the heading and
  then visits the \<^verbatim>\<open>span\<close>, where \<^verbatim>\<open>translation.includes\<close> throws a TypeError: the run
  ends before the placeholder loop. On the second run the \<^verbatim>\<open>span\<close> is gone, the run ends
  normally, and the input gets its placeholder: the second run changes the document.
\<close>

theorem C2_counterexample:
  "applyTranslations example_parser [(''en'', example_tree)] ''en'' nested_page
     = Abrupt (TypeError ''translation.includes is not a function'') nested_page_1
   \<and> applyTranslations example_parser [(''en'', example_tree)] ''en'' nested_page_1
     = Normal nested_page_2
   \<and> map (\<lambda>e. getAttribute e ''placeholder'') (elements_of_list nested_page_1) = [None, None]
   \<and> map (\<lambda>e. getAttribute e ''placeholder'') (elements_of_list nested_page_2)
     = [None, Some ''Welcome'']"
  by (simp add: applyTranslations_def nested_page_def nested_page_1_def nested_page_2_def
      marked_def callback_eval lookup_example loaded_example)

text \<open>
  C2, amended. On a document in which every marker key resolves to a string or to \<^verbatim>\<open>null\<close>
  in the given language, and in which the markup that a text marker is parsed to carries
  no marker, \<open>applyTranslations\<close> ends normally, and a second run on the result ends
  normally and leaves the result as it is.
\<close>

theorem C2_idempotent_on_well_marked:
  assumes "list_all (well_marked parseHTML translations language) (elements_of_list document)"
  shows "\<exists>d1. applyTranslations parseHTML translations language document = Normal d1
            \<and> applyTranslations parseHTML translations language d1 = Normal d1"
proof -
  let ?r = "resolved translations language"
  let ?early = "\<not> truthy (translations_for translations language)
      \<or> own_keys_count (translations_for translations language) = 0"
  let ?d1 = "if ?early then document else map (sync parseHTML ?r) document"
  have wm: "\<forall>e \<in> set (elements_of_list document). well_marked parseHTML translations language e"
    using assms by (simp add: list_all_iff)
  then have 1: "applyTranslations parseHTML translations language document = Normal ?d1"
    by (rule applyTranslations_well_marked)
  have "\<forall>e \<in> set (elements_of_list ?d1). well_marked parseHTML translations language e"
    using wm sync_well_marked [OF wm wm] by simp
  then have "applyTranslations parseHTML translations language ?d1 =
      Normal (if ?early then ?d1 else map (sync parseHTML ?r) ?d1)"
    by (rule applyTranslations_well_marked)
  also have "(if ?early then ?d1 else map (sync parseHTML ?r) ?d1) = ?d1"
    using sync_idempotent [OF wm] by simp
  finally show ?thesis using 1 by blast
qed

text \<open>The amended C2 on the page that the first run of the example above has left.\<close>

theorem C2_idempotent_on_well_marked_witness:
  "list_all (well_marked example_parser [(''en'', example_tree)] ''en'')
     (elements_of_list nested_page_1)
   \<and> applyTranslations example_parser [(''en'', example_tree)] ''en'' nested_page_1
     = Normal nested_page_2
   \<and> applyTranslations example_parser [(''en'', example_tree)] ''en'' nested_page_2
     = Normal nested_page_2"
proof -
  let ?T = "[(''en'', example_tree)]"
  have h: "list_all (well_marked example_parser ?T ''en'') (elements_of_list nested_page_1)"
    by code_simp
  have a: "applyTranslations example_parser ?T ''en'' nested_page_1 = Normal nested_page_2"
    by (simp add: applyTranslations_def nested_page_1_def nested_page_2_def
        marked_def callback_eval lookup_example loaded_example)
  from C2_idempotent_on_well_marked [OF h] obtain d1
    where 1: "applyTranslations example_parser ?T ''en'' nested_page_1 = Normal d1"
      and 2: "applyTranslations example_parser ?T ''en'' d1 = Normal d1"
    by blast
  from 1 a have "d1 = nested_page_2" by simp
  with 2 have b: "applyTranslations example_parser ?T ''en'' nested_page_2 = Normal nested_page_2"
    by simp
  show ?thesis
    by (intro conjI) (rule h a b)+
qed

section \<open>C5: to Arabic and back\<close>





end
